theory Spec2Isabelle
  imports Main
begin

section \<open>Text\<close>

text \<open>
  Python strings are modelled as HOL strings. The character tests below are those of
  Python on the ASCII range, which is the range the documents are taken from:
  \<open>str.isspace\<close> and the regular-expression class \<open>\s\<close> hold for the codes
  9 to 13, 28 to 31 and 32; \<open>\d\<close> and \<open>str.isdigit\<close> for the ten digits;
  \<open>\w\<close> for letters, digits and the underscore.
\<close>

definition is_space :: "char \<Rightarrow> bool" where
  "is_space c = (let n = (of_char c :: nat) in (9 \<le> n \<and> n \<le> 13) \<or> (28 \<le> n \<and> n \<le> 32))"

definition is_digit :: "char \<Rightarrow> bool" where
  "is_digit c = (let n = (of_char c :: nat) in 48 \<le> n \<and> n \<le> 57)"

definition is_upper :: "char \<Rightarrow> bool" where
  "is_upper c = (let n = (of_char c :: nat) in 65 \<le> n \<and> n \<le> 90)"

definition is_lower :: "char \<Rightarrow> bool" where
  "is_lower c = (let n = (of_char c :: nat) in 97 \<le> n \<and> n \<le> 122)"

definition is_word :: "char \<Rightarrow> bool" where
  "is_word c = (is_upper c \<or> is_lower c \<or> is_digit c \<or> c = CHR ''_'')"

definition lower_ch :: "char \<Rightarrow> char" where
  "lower_ch c = (if is_upper c then char_of ((of_char c :: nat) + 32) else c)"

definition upper_ch :: "char \<Rightarrow> char" where
  "upper_ch c = (if is_lower c then char_of ((of_char c :: nat) - 32) else c)"

definition lower :: "string \<Rightarrow> string" where
  "lower s = map lower_ch s"

definition upper :: "string \<Rightarrow> string" where
  "upper s = map upper_ch s"

text \<open>\<open>str.strip()\<close>: leading and trailing white space removed.\<close>

definition strip :: "string \<Rightarrow> string" where
  "strip s = rev (dropWhile is_space (rev (dropWhile is_space s)))"

text \<open>\<open>str.isdigit()\<close>: non-empty and digits only.\<close>

definition isdigit :: "string \<Rightarrow> bool" where
  "isdigit s = (s \<noteq> [] \<and> list_all is_digit s)"

text \<open>\<open>a.startswith(b)\<close>, \<open>b in a\<close> and \<open>a.endswith(b)\<close>.\<close>

fun startswith :: "string \<Rightarrow> string \<Rightarrow> bool" where
  "startswith s [] = True"
| "startswith [] (p # ps) = False"
| "startswith (c # cs) (p # ps) = (c = p \<and> startswith cs ps)"

fun contains :: "string \<Rightarrow> string \<Rightarrow> bool" where
  "contains [] p = (p = [])"
| "contains (c # cs) p = (startswith (c # cs) p \<or> contains cs p)"

definition endswith :: "string \<Rightarrow> string \<Rightarrow> bool" where
  "endswith s p = startswith (rev s) (rev p)"

text \<open>\<open>str.split()\<close> without argument: the maximal runs of non-space characters.\<close>

fun split_acc :: "string \<Rightarrow> string \<Rightarrow> string list" where
  "split_acc w [] = (if w = [] then [] else [rev w])"
| "split_acc w (c # cs) =
     (if is_space c then (if w = [] then split_acc [] cs else rev w # split_acc [] cs)
      else split_acc (c # w) cs)"

definition split :: "string \<Rightarrow> string list" where
  "split s = split_acc [] s"

text \<open>
  \<open>s.replace(old, new)\<close>, for a non-empty \<open>old\<close>: the occurrences are replaced from
  left to right, without overlap.
\<close>

function replace :: "string \<Rightarrow> string \<Rightarrow> string \<Rightarrow> string" where
  "replace old new [] = []"
| "replace old new (c # cs) =
     (if old \<noteq> [] \<and> startswith (c # cs) old
      then new @ replace old new (drop (length old) (c # cs))
      else c # replace old new cs)"
  by pat_completeness auto
termination
  by (relation "measure (\<lambda>(old, new, s). length s)") auto

text \<open>
  \<open>str.title()\<close>: a letter is put in upper case when the character before it is
  not a letter, and in lower case otherwise.
\<close>

fun title_from :: "bool \<Rightarrow> string \<Rightarrow> string" where
  "title_from prev [] = []"
| "title_from prev (c # cs) =
     (if is_upper c \<or> is_lower c
      then (if prev then lower_ch c else upper_ch c) # title_from True cs
      else c # title_from False cs)"

definition title :: "string \<Rightarrow> string" where
  "title s = title_from False s"

text \<open>\<open>sep.join(xs)\<close>.\<close>

fun join :: "string \<Rightarrow> string list \<Rightarrow> string" where
  "join sep [] = []"
| "join sep [x] = x"
| "join sep (x # y # ys) = x @ sep @ join sep (y # ys)"

section \<open>Regular expressions\<close>

text \<open>
  The patterns of the source are written as values of \<open>rx\<close> and run by a backtracking
  matcher with the priorities of Python's \<open>re\<close>: a repetition first tries the longest
  run, an optional part is first tried present, an alternative is tried from the left, and
  \<open>search\<close> returns the match of highest priority at the leftmost position that has one.
  Every repetition of the source's patterns is over a single character class.
\<close>

datatype cls =
    Ch char
  | Digit
  | Space
  | Dot
  | AnyOf "cls list"
  | NoneOf "cls list"

datatype rx =
    One cls
  | Str string
  | Star cls
  | Plus cls
  | Opt rx
  | Seq "rx list"
  | Alt "rx list"
  | Grp nat rx
  | Bol
  | Eol
  | WordB

text \<open>The flag \<open>ci\<close> is \<open>re.I\<close>.\<close>

fun cmatch :: "bool \<Rightarrow> cls \<Rightarrow> char \<Rightarrow> bool" where
  "cmatch ci (Ch l) c = (if ci then lower_ch c = lower_ch l else c = l)"
| "cmatch ci Digit c = is_digit c"
| "cmatch ci Space c = is_space c"
| "cmatch ci Dot c = (c \<noteq> CHR 0x0A)"
| "cmatch ci (AnyOf cs) c = list_ex (\<lambda>k. cmatch ci k c) cs"
| "cmatch ci (NoneOf cs) c = (\<not> list_ex (\<lambda>k. cmatch ci k c) cs)"

text \<open>
  A matcher state: the character before the current position (\<open>None\<close> at the start of
  the text), the text still to read, and the groups captured so far (latest first).
\<close>

type_synonym mstate = "char option \<times> string \<times> (nat \<times> string) list"

definition advance :: "mstate \<Rightarrow> nat \<Rightarrow> mstate" where
  "advance st n =
     (case st of (p, s, g) \<Rightarrow>
        (if n = 0 then p else Some (s ! (n - 1)), drop n s, g))"

definition at_word_boundary :: "char option \<Rightarrow> string \<Rightarrow> bool" where
  "at_word_boundary p s =
     ((case p of None \<Rightarrow> False | Some c \<Rightarrow> is_word c)
      \<noteq> (case s of [] \<Rightarrow> False | c # _ \<Rightarrow> is_word c))"

fun lit_match :: "bool \<Rightarrow> string \<Rightarrow> string \<Rightarrow> bool" where
  "lit_match ci [] s = True"
| "lit_match ci (l # ls) [] = False"
| "lit_match ci (l # ls) (c # cs) = (cmatch ci (Ch l) c \<and> lit_match ci ls cs)"

text \<open>
  \<open>ms ci r st\<close> lists the states in which a match of \<open>r\<close> from \<open>st\<close> can end, in
  the order in which the backtracking matcher tries them.
\<close>

fun ms :: "bool \<Rightarrow> rx \<Rightarrow> mstate \<Rightarrow> mstate list"
  and ms_seq :: "bool \<Rightarrow> rx list \<Rightarrow> mstate \<Rightarrow> mstate list"
  and ms_alt :: "bool \<Rightarrow> rx list \<Rightarrow> mstate \<Rightarrow> mstate list" where
  "ms ci (One k) st =
     (case st of (p, s, g) \<Rightarrow>
        (case s of [] \<Rightarrow> [] | c # cs \<Rightarrow> if cmatch ci k c then [(Some c, cs, g)] else []))"
| "ms ci (Str l) st =
     (case st of (p, s, g) \<Rightarrow>
        if lit_match ci l s then [advance st (length l)] else [])"
| "ms ci (Star k) st =
     (case st of (p, s, g) \<Rightarrow>
        map (advance st) (rev [0 ..< Suc (length (takeWhile (cmatch ci k) s))]))"
| "ms ci (Plus k) st =
     (case st of (p, s, g) \<Rightarrow>
        map (advance st) (rev [1 ..< Suc (length (takeWhile (cmatch ci k) s))]))"
| "ms ci (Opt r) st = ms ci r st @ [st]"
| "ms ci (Seq rs) st = ms_seq ci rs st"
| "ms ci (Alt rs) st = ms_alt ci rs st"
| "ms ci (Grp i r) st =
     (case st of (p, s, g) \<Rightarrow>
        map (\<lambda>(p', s', g'). (p', s', (i, take (length s - length s') s) # g')) (ms ci r st))"
| "ms ci Bol st = (case st of (p, s, g) \<Rightarrow> if p = None then [st] else [])"
| "ms ci Eol st =
     (case st of (p, s, g) \<Rightarrow> if s = [] \<or> s = [CHR 0x0A] then [st] else [])"
| "ms ci WordB st = (case st of (p, s, g) \<Rightarrow> if at_word_boundary p s then [st] else [])"
| "ms_seq ci [] st = [st]"
| "ms_seq ci (r # rs) st = concat (map (ms_seq ci rs) (ms ci r st))"
| "ms_alt ci [] st = []"
| "ms_alt ci (r # rs) st = ms ci r st @ ms_alt ci rs st"

text \<open>
  A match object: the text before the match, the matched text (\<open>group(0)\<close>), the
  groups, and the text after the match.
\<close>

record rmatch =
  m_pre :: string
  m_all :: string
  m_groups :: "(nat \<times> string) list"
  m_post :: string

text \<open>\<open>m.group(i)\<close> for \<open>i > 0\<close>; \<open>None\<close> when the group took no part in the match.\<close>

definition group :: "rmatch \<Rightarrow> nat \<Rightarrow> string option" where
  "group m i = map_of (m_groups m) i"

text \<open>
  \<open>re.match\<close> at a position: the first way the matcher finds, if any. \<open>p\<close> is the
  character before the position.
\<close>

definition match_at :: "bool \<Rightarrow> rx \<Rightarrow> char option \<Rightarrow> string \<Rightarrow> rmatch option" where
  "match_at ci r p s =
     (case ms ci r (p, s, []) of
        [] \<Rightarrow> None
      | (p', s', g) # _ \<Rightarrow>
          Some \<lparr>m_pre = [], m_all = take (length s - length s') s, m_groups = g, m_post = s'\<rparr>)"

text \<open>
  \<open>search_from ci r p s\<close> scans \<open>s\<close> from left to right for the first position with
  a match; \<open>m_pre\<close> is the part of \<open>s\<close> before the match.
\<close>

fun search_from :: "bool \<Rightarrow> rx \<Rightarrow> char option \<Rightarrow> string \<Rightarrow> rmatch option" where
  "search_from ci r p [] = match_at ci r p []"
| "search_from ci r p (c # cs) =
     (case match_at ci r p (c # cs) of
        Some m \<Rightarrow> Some m
      | None \<Rightarrow> map_option (\<lambda>m. m\<lparr>m_pre := c # m_pre m\<rparr>) (search_from ci r (Some c) cs))"

definition re_search :: "bool \<Rightarrow> rx \<Rightarrow> string \<Rightarrow> rmatch option" where
  "re_search ci r s = search_from ci r None s"

definition re_match :: "bool \<Rightarrow> rx \<Rightarrow> string \<Rightarrow> rmatch option" where
  "re_match ci r s = match_at ci r None s"

definition matches :: "bool \<Rightarrow> rx \<Rightarrow> string \<Rightarrow> bool" where
  "matches ci r s = (re_search ci r s \<noteq> None)"

text \<open>
  \<open>m.group(i)\<close> where the group is part of every match of the pattern (so that
  Python never returns \<open>None\<close> for it).
\<close>

definition grp :: "rmatch \<Rightarrow> nat \<Rightarrow> string" where
  "grp m i = (case group m i of Some g \<Rightarrow> g | None \<Rightarrow> [])"

section \<open>Documents\<close>

text \<open>
  The tree that the external parser returns: text strings and elements with a tag name,
  attributes and children. The document itself is the root element. Elements are compared
  by structure, as the parser's own equality on tags does.
\<close>

datatype node = Text string | Elem string "(string \<times> string) list" "node list"

fun is_elem :: "node \<Rightarrow> bool" where
  "is_elem (Text s) = False"
| "is_elem (Elem t a cs) = True"

fun tag_of :: "node \<Rightarrow> string" where
  "tag_of (Text s) = []"
| "tag_of (Elem t a cs) = t"

fun attrs_of :: "node \<Rightarrow> (string \<times> string) list" where
  "attrs_of (Text s) = []"
| "attrs_of (Elem t a cs) = a"

fun children_of :: "node \<Rightarrow> node list" where
  "children_of (Text s) = []"
| "children_of (Elem t a cs) = cs"

text \<open>\<open>tag.get(name)\<close>.\<close>

definition get_attr :: "node \<Rightarrow> string \<Rightarrow> string option" where
  "get_attr n a = map_of (attrs_of n) a"

text \<open>The descendants of a node in document order, the node itself excluded.\<close>

fun descendants :: "node \<Rightarrow> node list" where
  "descendants (Text s) = []"
| "descendants (Elem t a cs) = concat (map (\<lambda>c. c # descendants c) cs)"

text \<open>
  The descendants, each with its chain of ancestors up to the node the search started
  from (nearest first); \<open>anc\<close> is the chain of the start node itself.
\<close>

fun descendants_ctx :: "node list \<Rightarrow> node \<Rightarrow> (node \<times> node list) list" where
  "descendants_ctx anc (Text s) = []"
| "descendants_ctx anc (Elem t a cs) =
     concat (map (\<lambda>c. (c, Elem t a cs # anc) # descendants_ctx (Elem t a cs # anc) c) cs)"

text \<open>The text strings below a node (or the node itself, if it is a string), in order.\<close>

fun strings :: "node \<Rightarrow> string list" where
  "strings (Text s) = [s]"
| "strings (Elem t a cs) = concat (map strings cs)"

text \<open>\<open>get_text()\<close>, and \<open>get_text(sep, strip=True)\<close>.\<close>

definition get_text :: "node \<Rightarrow> string" where
  "get_text n = concat (strings n)"

definition get_text_strip :: "string \<Rightarrow> node \<Rightarrow> string" where
  "get_text_strip sep n = join sep (filter (\<lambda>s. s \<noteq> []) (map strip (strings n)))"

text \<open>\<open>find_all\<close> and \<open>find\<close> with a test on elements.\<close>

definition find_all :: "(node \<Rightarrow> bool) \<Rightarrow> node \<Rightarrow> node list" where
  "find_all P n = filter (\<lambda>d. is_elem d \<and> P d) (descendants n)"

definition find_first :: "(node \<Rightarrow> bool) \<Rightarrow> node \<Rightarrow> node option" where
  "find_first P n = (case find_all P n of [] \<Rightarrow> None | d # _ \<Rightarrow> Some d)"

definition named :: "string list \<Rightarrow> node \<Rightarrow> bool" where
  "named ts n = (tag_of n \<in> set ts)"

text \<open>
  The \<open>class\<close> attribute is a list of tokens. A pattern given as \<open>class_=\<close> is
  searched in each token and in the tokens joined by single spaces.
\<close>

definition class_tokens :: "node \<Rightarrow> string list option" where
  "class_tokens n = map_option split (get_attr n ''class'')"

definition class_matches :: "bool \<Rightarrow> rx \<Rightarrow> node \<Rightarrow> bool" where
  "class_matches ci r n =
     (case class_tokens n of
        None \<Rightarrow> False
      | Some ts \<Rightarrow> list_ex (matches ci r) ts \<or> matches ci r (join '' '' ts))"

text \<open>An attribute given as a pattern, and the selector \<open>[a*="v"]\<close>.\<close>

definition attr_matches :: "string \<Rightarrow> bool \<Rightarrow> rx \<Rightarrow> node \<Rightarrow> bool" where
  "attr_matches a ci r n =
     (case get_attr n a of None \<Rightarrow> False | Some v \<Rightarrow> matches ci r v)"

definition attr_contains :: "string \<Rightarrow> string \<Rightarrow> node \<Rightarrow> bool" where
  "attr_contains a v n =
     (if a = ''class''
      then (case class_tokens n of None \<Rightarrow> False | Some ts \<Rightarrow> contains (join '' '' ts) v)
      else (case get_attr n a of None \<Rightarrow> False | Some w \<Rightarrow> contains w v))"

text \<open>
  \<open>find(attrs={a: lambda x: x and v in str(x)})\<close>: the attribute is present, not empty,
  and contains \<open>v\<close>.
\<close>

definition attr_has :: "string \<Rightarrow> string \<Rightarrow> node \<Rightarrow> bool" where
  "attr_has a v n =
     (case get_attr n a of None \<Rightarrow> False | Some w \<Rightarrow> w \<noteq> [] \<and> contains w v)"

section \<open>Records and results\<close>

text \<open>
  A normalised plan carries the fields that identify an offer: name, price, regular price
  and data amount. The descriptive lists of the source's dictionaries (features,
  discounts, promotions, network, roaming, ribbon) are collected from the same tile in the
  same call; nothing below reads them and they are not part of the record. Where their
  collection removes \<open>sup\<close> elements from the list items it reads, the removal is not
  threaded to tiles nested in those items.
\<close>

record plan =
  name :: string
  price :: string
  regular_price :: "string option"
  data :: string

text \<open>An entry of \<open>unique_plans\<close>.\<close>

record entry =
  e_tile :: node
  e_name :: string
  e_price :: string
  e_data :: string
  e_group :: "string option"

text \<open>
  The returned markup is the page as received (\<open>_basic_fallback\<close>), the serialisation of
  the cleaned document (\<open>str(soup)\<close>), or \<open>_build_final_html\<close> of the normalised
  plans.
\<close>

datatype markup = Original string | Cleaned node | Built "plan list"

record stats =
  original_size :: nat
  original_tokens :: nat
  plan_count :: nat
  tiles_before_dedup :: nat
  tiles_after_dedup :: nat

record result =
  html :: markup
  stats :: stats

datatype error = ZeroDivisionError | UnboundLocalError

definition basic_fallback :: "string \<Rightarrow> nat \<Rightarrow> result" where
  "basic_fallback html_content size0 =
     \<lparr>html = Original html_content,
      stats = \<lparr>original_size = size0, original_tokens = size0 div 4, plan_count = 0,
               tiles_before_dedup = 0, tiles_after_dedup = 0\<rparr>\<rparr>"

text \<open>
  The loop shared by the deduplication functions: a tile for which no entry is built is
  skipped, and an entry is appended when its key is not yet in \<open>seen_keys\<close>.
\<close>

fun dedup_loop :: "('t \<Rightarrow> (string \<times> 'e) option) \<Rightarrow> string list \<Rightarrow> 't list \<Rightarrow> 'e list" where
  "dedup_loop f seen [] = []"
| "dedup_loop f seen (t # ts) =
     (case f t of
        None \<Rightarrow> dedup_loop f seen ts
      | Some (key, e) \<Rightarrow>
          if key \<in> set seen then dedup_loop f seen ts
          else e # dedup_loop f (key # seen) ts)"

text \<open>The loop that normalises the unique tiles and keeps the results that are not \<open>None\<close>.\<close>

definition normalize_all :: "('e \<Rightarrow> plan option) \<Rightarrow> 'e list \<Rightarrow> plan list" where
  "normalize_all f es = List.map_filter f es"

text \<open>The first element of a list that a function accepts.\<close>

fun first_some :: "('a \<Rightarrow> 'b option) \<Rightarrow> 'a list \<Rightarrow> 'b option" where
  "first_some f [] = None"
| "first_some f (x # xs) = (case f x of Some y \<Rightarrow> Some y | None \<Rightarrow> first_some f xs)"


subsection \<open>Substitution and the list of all matches\<close>

text \<open>A match ends in a suffix of the text it started from.\<close>

lemma advance_rest: "fst (snd (advance st n)) = drop n (fst (snd st))"
  by (cases st) (simp add: advance_def)

lemma ms_suffix_all:
  "(\<forall>st' \<in> set (ms ci r st). \<exists>n. fst (snd st') = drop n (fst (snd st)))"
  "(\<forall>st' \<in> set (ms_seq ci rs st). \<exists>n. fst (snd st') = drop n (fst (snd st)))"
  "(\<forall>st' \<in> set (ms_alt ci rs st). \<exists>n. fst (snd st') = drop n (fst (snd st)))"
proof (induction ci r st and ci rs st and ci rs st rule: ms_ms_seq_ms_alt.induct)
  case (1 ci k st)
  obtain p s g where st: "st = (p, s, g)" by (cases st)
  show ?case
  proof (cases s)
    case Nil
    then show ?thesis using st by simp
  next
    case (Cons c cs)
    have "cs = drop 1 s" using Cons by simp
    then show ?thesis using st Cons by (auto intro: exI [of _ 1])
  qed
next
  case (2 ci l st)
  obtain p s g where st: "st = (p, s, g)" by (cases st)
  show ?case using st advance_rest [of st] by auto
next
  case (3 ci k st)
  obtain p s g where st: "st = (p, s, g)" by (cases st)
  show ?case using st advance_rest [of st] by (auto simp del: upt_Suc)
next
  case (4 ci k st)
  obtain p s g where st: "st = (p, s, g)" by (cases st)
  show ?case using st advance_rest [of st] by (auto simp del: upt_Suc)
next
  case (5 ci r st)
  have "fst (snd st) = drop 0 (fst (snd st))" by simp
  then show ?case using 5 by (auto intro: exI [of _ 0])
next
  case (6 ci rs st)
  then show ?case by simp
next
  case (7 ci rs st)
  then show ?case by simp
next
  case (8 ci i r st)
  obtain p s g where st: "st = (p, s, g)" by (cases st)
  show ?case using 8 st by fastforce
next
  case (9 ci st)
  obtain p s g where st: "st = (p, s, g)" by (cases st)
  have "s = drop 0 s" by simp
  then show ?case using st by (auto intro: exI [of _ 0])
next
  case (10 ci st)
  obtain p s g where st: "st = (p, s, g)" by (cases st)
  have "s = drop 0 s" by simp
  then show ?case using st by (auto intro: exI [of _ 0])
next
  case (11 ci st)
  obtain p s g where st: "st = (p, s, g)" by (cases st)
  have "s = drop 0 s" by simp
  then show ?case using st by (auto intro: exI [of _ 0])
next
  case (12 ci st)
  have "fst (snd st) = drop 0 (fst (snd st))" by simp
  then show ?case by (auto intro: exI [of _ 0])
next
  case (13 ci r rs st)
  show ?case
  proof
    fix st' assume "st' \<in> set (ms_seq ci (r # rs) st)"
    then obtain st1 where a: "st1 \<in> set (ms ci r st)" and b: "st' \<in> set (ms_seq ci rs st1)"
      by auto
    from 13(1) a obtain n where n: "fst (snd st1) = drop n (fst (snd st))" by blast
    from 13(2) [OF a] b obtain m where m: "fst (snd st') = drop m (fst (snd st1))" by blast
    have "fst (snd st') = drop (m + n) (fst (snd st))" using n m by simp
    then show "\<exists>n. fst (snd st') = drop n (fst (snd st))" by blast
  qed
next
  case (14 ci st)
  show ?case by simp
next
  case (15 ci r rs st)
  then show ?case by auto
qed

lemma take_drop_rest: "take (length s - length (drop n s)) s @ drop n s = s"
proof (cases "n \<le> length s")
  case True
  then have "length s - length (drop n s) = n" by simp
  then show ?thesis by simp
next
  case False
  then show ?thesis by simp
qed

lemma match_at_decomp:
  assumes "match_at ci r p s = Some m"
  shows "m_pre m = [] \<and> s = m_all m @ m_post m"
proof -
  from assms obtain p' s' g rest where ms: "ms ci r (p, s, []) = (p', s', g) # rest"
    and m: "m = \<lparr>m_pre = [], m_all = take (length s - length s') s, m_groups = g, m_post = s'\<rparr>"
    by (auto simp: match_at_def split: list.splits)
  have "(p', s', g) \<in> set (ms ci r (p, s, []))" using ms by simp
  then obtain n where "s' = drop n s" using ms_suffix_all(1) [of ci r "(p, s, [])"] by force
  then show ?thesis using m take_drop_rest [of s n] by simp
qed

lemma search_from_decomp:
  "search_from ci r p s = Some m \<Longrightarrow> s = m_pre m @ m_all m @ m_post m"
proof (induction s arbitrary: p m)
  case Nil
  then show ?case using match_at_decomp [of ci r p "[]" m] by simp
next
  case (Cons c cs)
  show ?case
  proof (cases "match_at ci r p (c # cs)")
    case (Some m')
    then have "m' = m" using Cons.prems by simp
    then show ?thesis using match_at_decomp [OF Some] by simp
  next
    case None
    then obtain m' where s: "search_from ci r (Some c) cs = Some m'"
      and m: "m = m'\<lparr>m_pre := c # m_pre m'\<rparr>"
      using Cons.prems by auto
    show ?thesis using Cons.IH [OF s] m by simp
  qed
qed

text \<open>
  \<open>re.sub\<close> with a constant replacement and \<open>re.findall\<close>: the matches are taken
  from left to right without overlap; after an empty match the scan moves on by one
  character.
\<close>

definition last_char :: "char option \<Rightarrow> string \<Rightarrow> char option" where
  "last_char p s = (if s = [] then p else Some (last s))"

function sub_from :: "bool \<Rightarrow> rx \<Rightarrow> string \<Rightarrow> char option \<Rightarrow> string \<Rightarrow> string" where
  "sub_from ci r repl p s =
     (case search_from ci r p s of
        None \<Rightarrow> s
      | Some m \<Rightarrow>
          if m_all m = []
          then (case m_post m of
                  [] \<Rightarrow> m_pre m @ repl
                | c # cs \<Rightarrow> m_pre m @ repl @ c # sub_from ci r repl (Some c) cs)
          else m_pre m @ repl
                 @ sub_from ci r repl (last_char p (m_pre m @ m_all m)) (m_post m))"
  by pat_completeness auto
termination
proof (relation "measure (\<lambda>(ci, r, repl, p, s). length s)", goal_cases)
  case 1
  show ?case by simp
next
  case (2 ci r repl p s m c cs)
  then show ?case using search_from_decomp [of ci r p s m] by simp
next
  case (3 ci r repl p s m)
  then show ?case using search_from_decomp [of ci r p s m]
    by (cases "m_all m") auto
qed

definition re_sub :: "bool \<Rightarrow> rx \<Rightarrow> string \<Rightarrow> string \<Rightarrow> string" where
  "re_sub ci r repl s = sub_from ci r repl None s"

function findall_from :: "bool \<Rightarrow> rx \<Rightarrow> char option \<Rightarrow> string \<Rightarrow> rmatch list" where
  "findall_from ci r p s =
     (case search_from ci r p s of
        None \<Rightarrow> []
      | Some m \<Rightarrow>
          if m_all m = []
          then (case m_post m of
                  [] \<Rightarrow> [m]
                | c # cs \<Rightarrow> m # findall_from ci r (Some c) cs)
          else m # findall_from ci r (last_char p (m_pre m @ m_all m)) (m_post m))"
  by pat_completeness auto
termination
proof (relation "measure (\<lambda>(ci, r, p, s). length s)", goal_cases)
  case 1
  show ?case by simp
next
  case (2 ci r p s m c cs)
  then show ?case using search_from_decomp [of ci r p s m] by simp
next
  case (3 ci r p s m)
  then show ?case using search_from_decomp [of ci r p s m]
    by (cases "m_all m") auto
qed

definition re_findall :: "bool \<Rightarrow> rx \<Rightarrow> string \<Rightarrow> string list" where
  "re_findall ci r s = map m_all (findall_from ci r None s)"

section \<open>Patterns shared by the carriers\<close>

text \<open>\<open>\$\d+(?:\.\d+)?\<close>\<close>

definition rx_price :: rx where
  "rx_price = Seq [Str ''$'', Plus Digit, Opt (Seq [Str ''.'', Plus Digit])]"

text \<open>\<open>\$(\d+(?:\.\d+)?)\<close>\<close>

definition rx_dollar_amount :: rx where
  "rx_dollar_amount = Seq [Str ''$'', Grp 1 (Seq [Plus Digit, Opt (Seq [Str ''.'', Plus Digit])])]"

text \<open>\<open>(\d+)\s*GB\<close>, used with \<open>re.I\<close>.\<close>

definition rx_gb :: rx where
  "rx_gb = Seq [Grp 1 (Plus Digit), Star Space, Str ''GB'']"

text \<open>\<open>(\d+\s*GB|Unlimited)\<close>, used with \<open>re.I\<close>.\<close>

definition rx_gb_or_unlimited :: rx where
  "rx_gb_or_unlimited = Grp 1 (Alt [Seq [Plus Digit, Star Space, Str ''GB''], Str ''Unlimited''])"

text \<open>\<open>m.group(0) if m else "unknown"\<close>.\<close>

definition group0_or_unknown :: "rmatch option \<Rightarrow> string" where
  "group0_or_unknown mo = (case mo of None \<Rightarrow> ''unknown'' | Some m \<Rightarrow> m_all m)"

text \<open>A text string below a node matches a pattern: \<open>node.find(string=pattern)\<close> succeeds.\<close>

definition has_string :: "bool \<Rightarrow> rx \<Rightarrow> node \<Rightarrow> bool" where
  "has_string ci r n = list_ex (matches ci r) (strings n)"

definition headings :: "string list" where
  "headings = [''h1'', ''h2'', ''h3'', ''h4'', ''h5'', ''h6'']"

section \<open>Noise removal\<close>

text \<open>
  The cleaning loops of the entry points, as transformations of the tree. Each loop first
  collects the elements it visits and then changes the tree in document order, so that
  an element inside one that was already removed or replaced has no effect: the loop acts
  on the outermost elements that meet its test.
\<close>

fun del_attrs :: "(string \<Rightarrow> string \<Rightarrow> bool) \<Rightarrow> node \<Rightarrow> node" where
  "del_attrs P (Text s) = Text s"
| "del_attrs P (Elem t a cs) = Elem t (filter (\<lambda>(k, v). \<not> P k v) a) (map (del_attrs P) cs)"

fun remove_where :: "(node \<Rightarrow> bool) \<Rightarrow> node \<Rightarrow> node" where
  "remove_where P (Text s) = Text s"
| "remove_where P (Elem t a cs) =
     Elem t a (map (remove_where P) (filter (\<lambda>c. \<not> (is_elem c \<and> P c)) cs))"

fun replace_where :: "(node \<Rightarrow> bool) \<Rightarrow> (node \<Rightarrow> node) \<Rightarrow> node \<Rightarrow> node" where
  "replace_where P f (Text s) = Text s"
| "replace_where P f (Elem t a cs) =
     Elem t a (map (\<lambda>c. if is_elem c \<and> P c then f c else replace_where P f c) cs)"

text \<open>The steps that all entry points share.\<close>

definition del_aria :: "node \<Rightarrow> node" where
  "del_aria soup = del_attrs (\<lambda>k v. startswith k ''aria-'') soup"

definition empty_div :: "node \<Rightarrow> bool" where
  "empty_div d = (named [''div''] d \<and> get_text_strip [] d = [] \<and> find_all (\<lambda>_. True) d = [])"

definition remove_empty_divs :: "node \<Rightarrow> node" where
  "remove_empty_divs soup = remove_where empty_div soup"
section \<open>Rogers\<close>

definition rx_final_price :: rx where
  "rx_final_price =
     Seq [Str ''$'', Plus Digit, Opt (Seq [Str ''.'', Plus Digit]),
          Opt (Alt [Seq [Star Space, Str ''per'', Star Space, Str ''mo''],
                    Seq [Star Space, Str ''/mo'']])]"

definition rogers_labels :: "string list" where
  "rogers_labels =
     [''features'', ''plan perks'',
      ''get 3% cash back value with a rogers red credit card'',
      ''after auto-pay'', ''price before incentives'', ''rogers satellite included'']"

text \<open>The test of one paragraph text in the name loop.\<close>

definition rogers_name_of :: "string \<Rightarrow> string option" where
  "rogers_name_of txt =
     (if txt = [] \<or> length txt < 2 then None
      else if lower txt \<in> set rogers_labels then None
      else if contains txt ''$'' then None
      else if contains (lower txt) ''per mo'' \<or> contains (lower txt) ''/mo'' then None
      else if is_upper (hd txt) \<and> length txt < 50 \<and> length (split txt) \<le> 3 then Some txt
      else None)"

definition rogers_plan_name :: "node \<Rightarrow> string option" where
  "rogers_plan_name tile =
     first_some (\<lambda>p. rogers_name_of (get_text_strip [] p)) (find_all (named [''p'']) tile)"

definition rogers_price_elem :: "node \<Rightarrow> node option" where
  "rogers_price_elem tile =
     (case find_first (named [''ds-price'']) tile of
        Some d \<Rightarrow> Some d
      | None \<Rightarrow> find_first (class_matches True (Str ''price'')) tile)"

definition extract_price :: "node \<Rightarrow> string" where
  "extract_price tile =
     (case (case rogers_price_elem tile of
              None \<Rightarrow> None
            | Some d \<Rightarrow> map_option m_all (re_search False rx_price (get_text d))) of
        Some p \<Rightarrow> p
      | None \<Rightarrow>
          (case first_some
                  (\<lambda>span. if contains (lower (get_text span)) ''per mo''
                           then map_option m_all (re_search False rx_price (get_text span))
                           else None)
                  (find_all (named [''span'']) tile) of
             Some p \<Rightarrow> p
           | None \<Rightarrow> ''unknown''))"

text \<open>The data line of one list item.\<close>

definition data_of_li :: "node \<Rightarrow> string option" where
  "data_of_li li =
     (if matches True (Alt [Seq [Plus Digit, Star Space, Str ''GB''], Str ''Unlimited''])
           (get_text li)
      then map_option (\<lambda>m. grp m 1) (re_search True rx_gb_or_unlimited (get_text li))
      else None)"

text \<open>The \<open>ul\<close> elements of a tile, each with the text of its parent.\<close>

definition uls_with_parent_text :: "node \<Rightarrow> (node \<times> string) list" where
  "uls_with_parent_text tile =
     map (\<lambda>(u, anc). (u, case anc of [] \<Rightarrow> [] | p # _ \<Rightarrow> get_text p))
       (filter (\<lambda>(u, anc). is_elem u \<and> named [''ul''] u) (descendants_ctx [] tile))"

definition extract_data_amount :: "node \<Rightarrow> string" where
  "extract_data_amount tile =
     (case first_some
             (\<lambda>(u, ptxt). if contains (lower ptxt) ''features'' \<or> contains (lower ptxt) ''feature''
                           then Some u else None)
             (uls_with_parent_text tile) of
        None \<Rightarrow>
          (case first_some data_of_li
                  (concat (map (find_all (named [''li''])) (find_all (named [''ul'']) tile))) of
             Some d \<Rightarrow> d
           | None \<Rightarrow> ''unknown'')
      | Some features_ul \<Rightarrow>
          (case first_some data_of_li (find_all (named [''li'']) features_ul) of
             Some d \<Rightarrow> d
           | None \<Rightarrow> ''unknown''))"

definition rogers_entry :: "node \<Rightarrow> (string \<times> entry) option" where
  "rogers_entry tile =
     (case rogers_plan_name tile of
        None \<Rightarrow> None
      | Some plan_name \<Rightarrow>
          (let price = extract_price tile;
               data_amount = extract_data_amount tile
           in Some (plan_name @ ''|'' @ price @ ''|'' @ data_amount,
                    \<lparr>e_tile = tile, e_name = plan_name, e_price = price,
                     e_data = data_amount, e_group = None\<rparr>)))"

definition deduplicate_plans :: "node list \<Rightarrow> entry list" where
  "deduplicate_plans plan_tiles = dedup_loop rogers_entry [] plan_tiles"

definition extract_final_price :: "node \<Rightarrow> string" where
  "extract_final_price tile =
     (case (case rogers_price_elem tile of
              None \<Rightarrow> None
            | Some d \<Rightarrow> map_option (\<lambda>m. strip (m_all m))
                          (re_search True rx_final_price (get_text d))) of
        Some p \<Rightarrow> p
      | None \<Rightarrow>
          (case first_some
                  (\<lambda>span. if contains (lower (get_text span)) ''per mo''
                              \<or> contains (lower (get_text span)) ''/mo''
                           then map_option (\<lambda>m. m_all m @ ''/mo'')
                                  (re_search False rx_price (get_text span))
                           else None)
                  (find_all (named [''span'']) tile) of
             Some p \<Rightarrow> p
           | None \<Rightarrow> ''unknown''))"

text \<open>
  \<open>tile.find(string=pattern)\<close> together with the parent of the string found.
\<close>

definition find_string_ctx :: "bool \<Rightarrow> rx \<Rightarrow> node \<Rightarrow> (string \<times> node list) option" where
  "find_string_ctx ci r n =
     first_some
       (\<lambda>(d, anc). case d of Text s \<Rightarrow> if matches ci r s then Some (s, anc) else None
                             | Elem t a cs \<Rightarrow> None)
       (descendants_ctx [] n)"

definition extract_price_before_incentives :: "node \<Rightarrow> string option" where
  "extract_price_before_incentives tile =
     (case find_string_ctx True (Str ''Price before incentives'') tile of
        None \<Rightarrow> None
      | Some (s, anc) \<Rightarrow>
          map_option m_all
            (re_search False rx_price
               (case anc of [] \<Rightarrow> s | p # _ \<Rightarrow> get_text_strip '' '' p)))"

definition normalize_plan :: "node \<Rightarrow> plan option" where
  "normalize_plan tile =
     (let plan_name = (case rogers_plan_name tile of Some n \<Rightarrow> n | None \<Rightarrow> ''Unknown'');
          price_before = extract_price_before_incentives tile;
          price = extract_final_price tile;
          data_amount = extract_data_amount tile
      in Some \<lparr>name = plan_name, price = price, regular_price = price_before,
               data = data_amount\<rparr>)"

text \<open>
  The selector
  \<open>[class*="dsa-vertical-tile"], [class*="ds-tile"], ds-tile, dsa-vertical-tile\<close>.
\<close>

definition rogers_tile :: "node \<Rightarrow> bool" where
  "rogers_tile n =
     (attr_contains ''class'' ''dsa-vertical-tile'' n \<or> attr_contains ''class'' ''ds-tile'' n
      \<or> named [''ds-tile'', ''dsa-vertical-tile''] n)"

text \<open>
  The entry points take the page and the tree that the parser built from it.
\<close>

definition strip_rogers_html :: "string \<Rightarrow> node \<Rightarrow> error + result" where
  "strip_rogers_html html_content soup =
     (let size0 = length html_content;
          plan_tiles = find_all rogers_tile soup
      in if plan_tiles = [] then Inr (basic_fallback html_content size0)
         else
           (let unique_plans = deduplicate_plans plan_tiles;
                normalized_plans = normalize_all (\<lambda>e. normalize_plan (e_tile e)) unique_plans
            in Inr \<lparr>html = Built normalized_plans,
                    stats = \<lparr>original_size = size0, original_tokens = size0 div 4,
                             plan_count = length normalized_plans,
                             tiles_before_dedup = length plan_tiles,
                             tiles_after_dedup = length unique_plans\<rparr>\<rparr>))"

section \<open>Telus\<close>

text \<open>\<open>\$\d+(?:\.\d+)?(?:\s+per\s+month|\s+/mo)?\<close>, used with \<open>re.I\<close>.\<close>

definition rx_telus_price :: rx where
  "rx_telus_price =
     Seq [Str ''$'', Plus Digit, Opt (Seq [Str ''.'', Plus Digit]),
          Opt (Alt [Seq [Plus Space, Str ''per'', Plus Space, Str ''month''],
                    Seq [Plus Space, Str ''/mo'']])]"

text \<open>\<open>(\d+\s*GB(?:\s+at\s+\d+G(?:\+)?\s+Speed)?|Unlimited)\<close>, used with \<open>re.I\<close>.\<close>

definition rx_telus_data :: rx where
  "rx_telus_data =
     Grp 1 (Alt [Seq [Plus Digit, Star Space, Str ''GB'',
                      Opt (Seq [Plus Space, Str ''at'', Plus Space, Plus Digit, Str ''G'',
                                Opt (Str ''+''), Plus Space, Str ''Speed''])],
                 Str ''Unlimited''])"

definition extract_telus_price :: "node \<Rightarrow> string" where
  "extract_telus_price tile =
     (case (case find_first (attr_has ''data-testid'' ''plan-price-lockup'') tile of
              None \<Rightarrow> None
            | Some price_lockup \<Rightarrow>
                map_option m_all (re_search False rx_price (get_text price_lockup))) of
        Some p \<Rightarrow> p
      | None \<Rightarrow>
          (case re_search True rx_telus_price (get_text tile) of
             Some m \<Rightarrow> replace '' /mo'' ''/mo'' (replace '' per month'' ''/mo'' (m_all m))
           | None \<Rightarrow> group0_or_unknown (re_search False rx_price (get_text tile))))"

definition extract_telus_regular_price :: "node \<Rightarrow> string option" where
  "extract_telus_regular_price tile =
     (case (case find_first (attr_has ''data-testid'' ''plan-price-before-discounts'') tile of
              None \<Rightarrow> None
            | Some regular_section \<Rightarrow>
                map_option m_all (re_search False rx_price (get_text regular_section))) of
        Some p \<Rightarrow> Some p
      | None \<Rightarrow>
          (case find_first (named [''s'']) tile of
             None \<Rightarrow> None
           | Some strike \<Rightarrow> map_option m_all (re_search False rx_price (get_text strike))))"

definition extract_telus_data :: "node \<Rightarrow> string" where
  "extract_telus_data tile =
     (case find_first (attr_has ''data-testid'' ''mfe-rate-plan-data-bucket-amount'') tile of
        Some data_bucket \<Rightarrow>
          (let data_text = get_text_strip [] data_bucket
           in case find_first (attr_has ''data-testid'' ''mfe-rate-plan-data-bucket-speed'') tile of
                Some speed_bucket \<Rightarrow>
                  (let speed_text = get_text_strip [] speed_bucket
                   in if contains speed_text ''GB'' then data_text @ '' GB''
                      else data_text @ '' '' @ speed_text)
              | None \<Rightarrow> if isdigit data_text then data_text @ '' GB'' else data_text)
      | None \<Rightarrow>
          (case re_search True rx_telus_data (get_text tile) of
             Some m \<Rightarrow> grp m 1
           | None \<Rightarrow>
               (case re_search True rx_gb_or_unlimited (get_text tile) of
                  Some m \<Rightarrow> grp m 1
                | None \<Rightarrow> ''unknown'')))"

text \<open>The test of one paragraph text when the tile has no usable \<open>h3\<close>.\<close>

definition telus_name_of :: "string \<Rightarrow> string option" where
  "telus_name_of txt =
     (if txt = [] \<or> length txt < 2 then None
      else if contains txt ''$'' \<or> contains (lower txt) ''per mo'' \<or> contains (lower txt) ''/mo''
      then None
      else if lower txt \<in> set [''features'', ''unlock these offers'', ''mobility plans'', ''talk & text'']
      then None
      else if is_upper (hd txt) \<and> length txt < 50 \<and> length (split txt) \<le> 5 then Some txt
      else None)"

definition telus_plan_name :: "node \<Rightarrow> string option" where
  "telus_plan_name tile =
     (let plan_name = (case find_first (named [''h3'']) tile of
                         None \<Rightarrow> None
                       | Some h3 \<Rightarrow> Some (get_text_strip [] h3))
      in if plan_name = None \<or> plan_name = Some []
         then first_some (\<lambda>p. telus_name_of (get_text_strip [] p)) (find_all (named [''p'']) tile)
         else plan_name)"

definition telus_entry :: "node \<Rightarrow> (string \<times> entry) option" where
  "telus_entry tile =
     (case telus_plan_name tile of
        None \<Rightarrow> None
      | Some plan_name \<Rightarrow>
          (let price = extract_telus_price tile;
               data_amount = extract_telus_data tile
           in Some (plan_name @ ''|'' @ price @ ''|'' @ data_amount,
                    \<lparr>e_tile = tile, e_name = plan_name, e_price = price,
                     e_data = data_amount, e_group = None\<rparr>)))"

definition deduplicate_telus_plans :: "node list \<Rightarrow> entry list" where
  "deduplicate_telus_plans plan_tiles = dedup_loop telus_entry [] plan_tiles"

definition normalize_telus_plan :: "node \<Rightarrow> plan option" where
  "normalize_telus_plan tile =
     (let plan_name = (case find_first (named [''h3'']) tile of
                         None \<Rightarrow> ''Unknown''
                       | Some h3 \<Rightarrow> get_text_strip [] h3);
          price = extract_telus_price tile;
          regular = extract_telus_regular_price tile;
          data_amount = extract_telus_data tile
      in Some \<lparr>name = plan_name, price = price, regular_price = regular, data = data_amount\<rparr>)"

text \<open>Step 3 of the entry point: the cleaning of the document.\<close>

definition discount_note :: "node \<Rightarrow> node" where
  "discount_note d = Elem ''p'' [(''class'', ''discount-note'')] [Text (get_text_strip '' '' d)]"

definition ribbon_texts :: "string list" where
  "ribbon_texts = [''ONLY AT TELUS'', ''MOBILITY PLAN'', ''ROAMING DESTINATIONS'']"

definition div_with :: "string \<Rightarrow> node \<Rightarrow> bool" where
  "div_with phrase d = (named [''div''] d \<and> has_string True (Str phrase) d)"

definition telus_clean :: "node \<Rightarrow> node" where
  "telus_clean soup =
     (let s1 = del_attrs (\<lambda>k v. k = ''data-testid'') soup;
          s2 = del_aria s1;
          s3 = del_attrs (\<lambda>k v. k = ''dir'' \<and> v = ''auto'') s2;
          s4 = remove_where (named [''sup'']) s3;
          s5 = remove_where (named [''button'']) s4;
          s6 = replace_where (div_with ''Price includes savings'') discount_note s5;
          s7 = replace_where (div_with ''Unlock these offers'') discount_note s6;
          s8 = remove_where (div_with ''Full plan details'') s7;
          s9 = replace_where (\<lambda>d. list_ex (\<lambda>t. div_with t d) ribbon_texts)
                 (\<lambda>d. Elem ''div'' (attrs_of d) [Text (get_text_strip [] d)]) s8
      in remove_empty_divs s9)"

text \<open>
  Step 4: when no unique plan was found, the \<open>h3\<close> headings of the cleaned document
  are visited; for each, up to three enclosing \<open>div\<close> elements are tried, and the first
  that holds exactly one \<open>h3\<close> becomes a plan card.
\<close>

fun telus_cards_loop :: "node list \<Rightarrow> (node \<times> node list) list \<Rightarrow> node list" where
  "telus_cards_loop plan_cards [] = plan_cards"
| "telus_cards_loop plan_cards ((h3, anc) # rest) =
     (case filter (named [''div'']) anc of
        [] \<Rightarrow> telus_cards_loop plan_cards rest
      | parent # ups \<Rightarrow>
          if parent \<in> set plan_cards then telus_cards_loop plan_cards rest
          else
            (case first_some
                    (\<lambda>d. if length (find_all (named [''h3'']) d) = 1 then Some d else None)
                    (take 3 (parent # ups)) of
               Some d \<Rightarrow> telus_cards_loop (plan_cards @ [d]) rest
             | None \<Rightarrow> telus_cards_loop plan_cards rest))"

definition telus_plan_cards :: "node \<Rightarrow> node list" where
  "telus_plan_cards soup =
     telus_cards_loop []
       (filter (\<lambda>(d, anc). is_elem d \<and> named [''h3''] d) (descendants_ctx [] soup))"

definition telus_tiles :: "node \<Rightarrow> node list" where
  "telus_tiles soup =
     (let plan_tiles =
            find_all (\<lambda>n. attr_contains ''data-testid'' ''mfe-rate-plan-tile-'' n
                          \<and> attr_contains ''data-testid'' ''-container'' n) soup
      in if plan_tiles = []
         then find_all (attr_contains ''data-testid'' ''mfe-rate-plan-card-id-'') soup
         else plan_tiles)"

text \<open>
  In the branch that returns the cleaned document the reduction is computed as
  \<open>(original_size - final_size) / original_size\<close> without the guard that the other
  returns have.
\<close>

definition strip_telus_html :: "string \<Rightarrow> node \<Rightarrow> error + result" where
  "strip_telus_html html_content soup =
     (let size0 = length html_content;
          plan_tiles = telus_tiles soup;
          unique_plans_data = deduplicate_telus_plans plan_tiles;
          normalized_plans =
            normalize_all (\<lambda>e. normalize_telus_plan (e_tile e)) unique_plans_data;
          cleaned = telus_clean soup
      in if unique_plans_data = []
         then
           (let plan_cards = telus_plan_cards cleaned
            in if plan_cards = []
               then (if size0 = 0 then Inl ZeroDivisionError
                     else Inr \<lparr>html = Cleaned cleaned,
                               stats = \<lparr>original_size = size0, original_tokens = size0 div 4,
                                        plan_count = 0, tiles_before_dedup = 0,
                                        tiles_after_dedup = 0\<rparr>\<rparr>)
               else Inr \<lparr>html = Built normalized_plans,
                         stats = \<lparr>original_size = size0, original_tokens = size0 div 4,
                                  plan_count = length normalized_plans,
                                  tiles_before_dedup = length plan_cards,
                                  tiles_after_dedup = length plan_cards\<rparr>\<rparr>)
         else Inr \<lparr>html = Built normalized_plans,
                   stats = \<lparr>original_size = size0, original_tokens = size0 div 4,
                            plan_count = length normalized_plans,
                            tiles_before_dedup = length plan_tiles,
                            tiles_after_dedup = length unique_plans_data\<rparr>\<rparr>)"

section \<open>Bell\<close>

text \<open>\<open>\$\s*\d+(?:\.\d+)?(?:\s*/?\s*mo\.?)?\<close>\<close>

definition rx_bell_key_price :: rx where
  "rx_bell_key_price =
     Seq [Str ''$'', Star Space, Plus Digit, Opt (Seq [Str ''.'', Plus Digit]),
          Opt (Seq [Star Space, Opt (Str ''/''), Star Space, Str ''mo'', Opt (Str ''.'')])]"

text \<open>\<open>\s*/?\s*mo\.?\<close>\<close>

definition rx_month_suffix :: rx where
  "rx_month_suffix = Seq [Star Space, Opt (Str ''/''), Star Space, Str ''mo'', Opt (Str ''.'')]"

text \<open>\<open>\$\s*(\d+(?:\.\d+)?)(?:\s*/?\s*mo\.?|\s+per month)\<close>, used with \<open>re.I\<close>.\<close>

definition rx_bell_price_context :: rx where
  "rx_bell_price_context =
     Seq [Str ''$'', Star Space, Grp 1 (Seq [Plus Digit, Opt (Seq [Str ''.'', Plus Digit])]),
          Alt [Seq [Star Space, Opt (Str ''/''), Star Space, Str ''mo'', Opt (Str ''.'')],
               Seq [Plus Space, Str ''per month'']]]"

text \<open>\<open>\$\s*\d+(?:\.\d+)?\<close>\<close>

definition rx_bell_any_price :: rx where
  "rx_bell_any_price = Seq [Str ''$'', Star Space, Plus Digit, Opt (Seq [Str ''.'', Plus Digit])]"

definition bell_skip_keywords :: "string list" where
  "bell_skip_keywords =
     [''are you'', ''select an'', ''how would'', ''please select'',
      ''would you like'', ''back to'', ''change'', ''new customer'']"

definition bell_heading :: "node \<Rightarrow> string" where
  "bell_heading container =
     (case find_first (named [''h3'']) container of
        None \<Rightarrow> ''Unknown''
      | Some h3 \<Rightarrow> get_text_strip [] h3)"

definition bell_entry :: "node \<Rightarrow> (string \<times> entry) option" where
  "bell_entry container =
     (let plan_name = bell_heading container
      in if plan_name = [] \<or> length plan_name > 50 \<or> contains plan_name ''?'' then None
         else if list_ex (\<lambda>keyword. contains (lower plan_name) keyword) bell_skip_keywords
         then None
         else
           (let txt = get_text container;
                data_amount = group0_or_unknown (re_search True rx_gb txt);
                price =
                  (case re_search False rx_bell_key_price txt of
                     Some m \<Rightarrow>
                       re_sub False (Plus Space) [] (re_sub False rx_month_suffix [] (m_all m))
                   | None \<Rightarrow> ''unknown'')
            in Some (plan_name @ ''|'' @ price @ ''|'' @ data_amount,
                     \<lparr>e_tile = container, e_name = plan_name, e_price = price,
                      e_data = data_amount, e_group = None\<rparr>)))"

definition deduplicate_bell_plans :: "node list \<Rightarrow> entry list" where
  "deduplicate_bell_plans plan_containers = dedup_loop bell_entry [] plan_containers"

definition bell_primary_price :: "string \<Rightarrow> string" where
  "bell_primary_price txt =
     (case re_search True rx_bell_price_context txt of
        Some m \<Rightarrow> ''$'' @ grp m 1
      | None \<Rightarrow>
          (case filter (\<lambda>p. p \<notin> set [''$0'', ''$0.00''])
                  (map (re_sub False (Plus Space) []) (re_findall False rx_bell_any_price txt)) of
             [] \<Rightarrow> ''unknown''
           | p # _ \<Rightarrow> p))"

definition normalize_bell_plan :: "node \<Rightarrow> plan option" where
  "normalize_bell_plan container =
     (let plan_name = bell_heading container
      in if plan_name = [] \<or> length plan_name > 50 \<or> contains plan_name ''?'' then None
         else
           (let txt = get_text_strip '' '' container;
                regular =
                  (case find_first (named [''s'']) container of
                     None \<Rightarrow> None
                   | Some strikethrough \<Rightarrow>
                       map_option m_all (re_search False rx_price (get_text strikethrough)));
                primary_price = bell_primary_price txt;
                data_amount = group0_or_unknown (re_search True rx_gb txt)
            in Some \<lparr>name = plan_name, price = primary_price, regular_price = regular,
                     data = data_amount\<rparr>))"

text \<open>
  After normalisation the entry point cleans \<open>soup\<close> (navigation, modals, forms,
  attributes, footnotes, buttons, empty containers, promotional text); the cleaned tree
  is not read again.
\<close>

definition strip_bell_html :: "string \<Rightarrow> node \<Rightarrow> error + result" where
  "strip_bell_html html_content soup =
     (let size0 = length html_content;
          plan_containers = find_all (\<lambda>n. get_attr n ''data-product-id'' \<noteq> None) soup
      in if plan_containers = [] then Inr (basic_fallback html_content size0)
         else
           (let unique_plans_data = deduplicate_bell_plans plan_containers;
                normalized_plans =
                  normalize_all (\<lambda>e. normalize_bell_plan (e_tile e)) unique_plans_data
            in Inr \<lparr>html = Built normalized_plans,
                    stats = \<lparr>original_size = size0, original_tokens = size0 div 4,
                             plan_count = length normalized_plans,
                             tiles_before_dedup = length plan_containers,
                             tiles_after_dedup = length unique_plans_data\<rparr>\<rparr>))"

section \<open>Freedom\<close>

text \<open>\<open>plan-card-(\d+)(gb|mb)-?(\d+g|5g\+?|4g|lte)?\<close>, used with \<open>re.I\<close>.\<close>

definition rx_plan_card :: rx where
  "rx_plan_card =
     Seq [Str ''plan-card-'', Grp 1 (Plus Digit), Grp 2 (Alt [Str ''gb'', Str ''mb'']),
          Opt (Str ''-''),
          Opt (Grp 3 (Alt [Seq [Plus Digit, Str ''g''], Seq [Str ''5g'', Opt (Str ''+'')],
                           Str ''4g'', Str ''lte'']))]"

text \<open>\<open>plan-card-([^-]+(?:-[^-]+)?)\<close>, used with \<open>re.I\<close>.\<close>

definition rx_plan_card_name :: rx where
  "rx_plan_card_name =
     Seq [Str ''plan-card-'',
          Grp 1 (Seq [Plus (NoneOf [Ch CHR ''-'']),
                      Opt (Seq [Str ''-'', Plus (NoneOf [Ch CHR ''-''])])])]"

text \<open>\<open>\$?(\d+(?:\.\d+)?)\s*(?:/|per)\s*mo(?:nth)?\<close>, used with \<open>re.I\<close>.\<close>

definition rx_freedom_price :: rx where
  "rx_freedom_price =
     Seq [Opt (Str ''$''), Grp 1 (Seq [Plus Digit, Opt (Seq [Str ''.'', Plus Digit])]),
          Star Space, Alt [Str ''/'', Str ''per''], Star Space, Str ''mo'', Opt (Str ''nth'')]"

text \<open>The network part of a name decoded from the test id.\<close>

definition freedom_network :: "string \<Rightarrow> node \<Rightarrow> string" where
  "freedom_network g3 container =
     (if g3 \<noteq> [] then (if upper g3 = ''5G'' then ''5G+'' else upper g3)
      else
        (let container_text = get_text container
         in if matches True (Seq [Str ''5g'', Opt (Str ''+'')]) container_text then ''5G+''
            else if matches True (Str ''5g'') container_text then ''5G''
            else if matches True (Alt [Str ''4g'', Str ''lte'']) container_text then ''4G LTE''
            else []))"

definition freedom_name_from_testid :: "string \<Rightarrow> node \<Rightarrow> string" where
  "freedom_name_from_testid testid container =
     (case re_match True rx_plan_card testid of
        Some m \<Rightarrow>
          (let data_num = grp m 1;
               data_unit = upper (grp m 2);
               network = freedom_network (grp m 3) container
           in if network \<noteq> [] then data_num @ data_unit @ '' '' @ network
              else data_num @ data_unit)
      | None \<Rightarrow>
          (case re_search True rx_plan_card_name testid of
             Some m \<Rightarrow> title (replace ''-'' '' '' (grp m 1))
           | None \<Rightarrow> []))"

text \<open>
  The name as both the deduplication and the normalisation compute it, before their
  final test; the empty string stands for "no name".
\<close>

definition freedom_plan_name :: "node \<Rightarrow> string" where
  "freedom_plan_name container =
     (let n1 = (case get_attr container ''aria-label'' of None \<Rightarrow> [] | Some v \<Rightarrow> v);
          n2 = (if n1 \<noteq> [] then n1
                else (case find_first (attr_matches ''data-testid'' True (Str ''plan-card-''))
                             container of
                        None \<Rightarrow> []
                      | Some plan_card \<Rightarrow>
                          freedom_name_from_testid
                            (case get_attr plan_card ''data-testid'' of None \<Rightarrow> [] | Some v \<Rightarrow> v)
                            container))
      in if n2 \<noteq> [] then n2
         else (case first_some
                      (\<lambda>h. let txt = get_text_strip [] h
                           in if txt \<noteq> [] \<and> length txt < 50
                                 \<and> lower txt \<notin> set [''features'', ''promotions'', ''roaming'']
                              then Some txt else None)
                      (find_all (named headings) container) of
                 Some txt \<Rightarrow> txt
               | None \<Rightarrow> []))"

definition freedom_price :: "string \<Rightarrow> string" where
  "freedom_price txt =
     (case re_search True rx_freedom_price txt of
        Some m \<Rightarrow> ''$'' @ grp m 1
      | None \<Rightarrow> group0_or_unknown (re_search False rx_price txt))"

definition freedom_entry :: "node \<Rightarrow> (string \<times> entry) option" where
  "freedom_entry container =
     (let n = freedom_plan_name container;
          plan_name = (if n = [] \<or> length n > 50 then ''Unknown'' else n);
          txt = get_text container;
          data_amount = group0_or_unknown (re_search True rx_gb txt);
          price = freedom_price txt
      in Some (plan_name @ ''|'' @ price @ ''|'' @ data_amount,
               \<lparr>e_tile = container, e_name = plan_name, e_price = price,
                e_data = data_amount, e_group = None\<rparr>))"

definition deduplicate_freedom_plans :: "node list \<Rightarrow> entry list" where
  "deduplicate_freedom_plans plan_containers = dedup_loop freedom_entry [] plan_containers"

definition normalize_freedom_plan :: "node \<Rightarrow> plan option" where
  "normalize_freedom_plan container =
     (let plan_name = freedom_plan_name container
      in if plan_name = [] \<or> length plan_name > 50 then None
         else
           (let txt = get_text container;
                price = freedom_price txt;
                data_amount = group0_or_unknown (re_search True rx_gb txt)
            in Some \<lparr>name = plan_name, price = price, regular_price = None,
                     data = data_amount\<rparr>))"

text \<open>Steps 4 to 7 of the entry point.\<close>

definition freedom_clean :: "node \<Rightarrow> node" where
  "freedom_clean soup =
     remove_empty_divs
       (remove_where (named [''button'']) (remove_where (named [''sup'']) (del_aria soup)))"

definition freedom_tiles :: "node \<Rightarrow> node list" where
  "freedom_tiles soup = find_all (\<lambda>n. get_attr n ''data-testid'' = Some ''planComponent'') soup"

definition strip_freedom_html :: "string \<Rightarrow> node \<Rightarrow> error + result" where
  "strip_freedom_html html_content soup =
     (let size0 = length html_content;
          plan_containers = freedom_tiles soup
      in if plan_containers = [] then Inr (basic_fallback html_content size0)
         else
           (let unique_plans_data = deduplicate_freedom_plans plan_containers;
                normalized_plans =
                  normalize_all (\<lambda>e. normalize_freedom_plan (e_tile e)) unique_plans_data;
                cleaned = freedom_clean soup
            in Inr \<lparr>html = Built normalized_plans,
                    stats = \<lparr>original_size = size0, original_tokens = size0 div 4,
                             plan_count = length normalized_plans,
                             tiles_before_dedup = length plan_containers,
                             tiles_after_dedup = length unique_plans_data\<rparr>\<rparr>))"

section \<open>Koodo\<close>

text \<open>\<open>at\s+(\d+G(?:\+)?)\s+Speed\<close>, used with \<open>re.I\<close>.\<close>

definition rx_at_speed :: rx where
  "rx_at_speed =
     Seq [Str ''at'', Plus Space, Grp 1 (Seq [Plus Digit, Str ''G'', Opt (Str ''+'')]),
          Plus Space, Str ''Speed'']"

text \<open>\<open>(\d+)\s*GB(?:\s+at\s+\d+G(?:\+)?\s+Speed)?\<close>, used with \<open>re.I\<close>.\<close>

definition rx_gb_at_speed :: rx where
  "rx_gb_at_speed =
     Seq [Grp 1 (Plus Digit), Star Space, Str ''GB'',
          Opt (Seq [Plus Space, Str ''at'', Plus Space, Plus Digit, Str ''G'', Opt (Str ''+''),
                    Plus Space, Str ''Speed''])]"

text \<open>\<open>\$(\d+(?:\.\d+)?)\s*(?:per\s*month)?\<close>, used with \<open>re.I\<close>.\<close>

definition rx_koodo_text_price :: rx where
  "rx_koodo_text_price =
     Seq [Str ''$'', Grp 1 (Seq [Plus Digit, Opt (Seq [Str ''.'', Plus Digit])]), Star Space,
          Opt (Seq [Str ''per'', Star Space, Str ''month''])]"

text \<open>
  The data amount and the price of a tile; the same statements stand in both
  deduplication functions and in the normalisation.
\<close>

definition koodo_data_amount :: "node \<Rightarrow> string" where
  "koodo_data_amount tile =
     (let data_amount_elem = find_first (attr_matches ''data-testid'' True (Str ''data-bucket-amount'')) tile;
          data_speed_elem = find_first (attr_matches ''data-testid'' True (Str ''data-bucket-speed'')) tile;
          data_speed_allowance =
            find_first (attr_matches ''data-testid'' True (Str ''data-bucket-speedAllowance'')) tile;
          data_amount =
            (case data_amount_elem of
               None \<Rightarrow> ''unknown''
             | Some a \<Rightarrow>
                 (let amount = get_text_strip [] a;
                      speed_text =
                        (case (case data_speed_allowance of Some x \<Rightarrow> Some x | None \<Rightarrow> data_speed_elem) of
                           Some x \<Rightarrow> get_text_strip [] x
                         | None \<Rightarrow> [])
                  in if speed_text \<noteq> [] \<and> contains speed_text ''Speed''
                     then (case re_search True rx_at_speed speed_text of
                             Some m \<Rightarrow> amount @ '' GB at '' @ grp m 1 @ '' Speed''
                           | None \<Rightarrow> amount @ '' GB '' @ speed_text)
                     else (if isdigit amount then amount @ '' GB'' else amount)))
      in if data_amount = ''unknown''
         then group0_or_unknown (re_search True rx_gb_at_speed (get_text tile))
         else data_amount)"

definition koodo_price :: "node \<Rightarrow> string" where
  "koodo_price tile =
     (let price =
            (case find_first (attr_matches ''data-testid'' True (Str ''plan-price-lockup'')) tile of
               None \<Rightarrow> ''unknown''
             | Some price_elem \<Rightarrow>
                 (case re_search False rx_dollar_amount (get_text_strip [] price_elem) of
                    Some m \<Rightarrow> ''$'' @ grp m 1
                  | None \<Rightarrow> ''unknown''))
      in if price = ''unknown''
         then (case re_search True rx_koodo_text_price (get_text tile) of
                 Some m \<Rightarrow> ''$'' @ grp m 1
               | None \<Rightarrow> price)
         else price)"

definition koodo_group_entry :: "node \<times> string \<Rightarrow> (string \<times> entry) option" where
  "koodo_group_entry item =
     (case item of (tile, group_name) \<Rightarrow>
        (let data_amount = koodo_data_amount tile;
             price = koodo_price tile
         in Some (group_name @ ''|'' @ data_amount @ ''|'' @ price,
                  \<lparr>e_tile = tile,
                   e_name = (if data_amount \<noteq> ''unknown'' then data_amount else ''Unknown''),
                   e_price = price, e_data = data_amount, e_group = Some group_name\<rparr>)))"

definition deduplicate_koodo_plans_with_groups :: "(node \<times> string) list \<Rightarrow> entry list" where
  "deduplicate_koodo_plans_with_groups plan_tiles_with_groups =
     dedup_loop koodo_group_entry [] plan_tiles_with_groups"

definition koodo_entry :: "node \<Rightarrow> (string \<times> entry) option" where
  "koodo_entry tile =
     (let data_amount = koodo_data_amount tile;
          price = koodo_price tile;
          plan_name = (if data_amount \<noteq> ''unknown'' then data_amount else ''Unknown'')
      in Some (plan_name @ ''|'' @ price,
               \<lparr>e_tile = tile, e_name = plan_name, e_price = price, e_data = data_amount,
                e_group = None\<rparr>))"

definition deduplicate_koodo_plans :: "node list \<Rightarrow> entry list" where
  "deduplicate_koodo_plans plan_tiles = dedup_loop koodo_entry [] plan_tiles"

definition normalize_koodo_plan :: "node \<Rightarrow> string option \<Rightarrow> plan option" where
  "normalize_koodo_plan tile group_name =
     (let data_amount = koodo_data_amount tile;
          plan_name =
            (case (case group_name of
                     None \<Rightarrow> None
                   | Some g \<Rightarrow> if g \<noteq> [] \<and> g \<noteq> ''Unknown'' then Some g else None) of
               Some g \<Rightarrow>
                 (if data_amount \<noteq> ''unknown'' then g @ '' - '' @ data_amount
                  else g @ '' - Unknown'')
             | None \<Rightarrow> (if data_amount \<noteq> ''unknown'' then data_amount else ''Unknown''))
      in if plan_name = ''Unknown''
            \<or> (endswith plan_name ''Unknown'' \<and> \<not> contains plan_name '' - '')
         then None
         else Some \<lparr>name = plan_name, price = koodo_price tile, regular_price = None,
                    data = data_amount\<rparr>)"

text \<open>Step 1: the groups, and the tiles of the page when it has no groups.\<close>

definition testid :: "node \<Rightarrow> string" where
  "testid n = (case get_attr n ''data-testid'' of None \<Rightarrow> [] | Some v \<Rightarrow> v)"

definition koodo_groups :: "node \<Rightarrow> node list" where
  "koodo_groups soup =
     filter (\<lambda>g. matches False (Seq [Str ''mfe-rate-plan-tile-group-'', Plus Digit, Eol]) (testid g))
       (find_all (attr_matches ''data-testid'' True (Str ''mfe-rate-plan-tile-group'')) soup)"

definition koodo_fallback_tiles :: "node \<Rightarrow> node list" where
  "koodo_fallback_tiles soup =
     filter (\<lambda>tile. \<not> contains (lower (testid tile)) ''group''
                    \<and> contains (lower (testid tile)) ''container'')
       (find_all (attr_matches ''data-testid'' True (Str ''mfe-rate-plan-tile'')) soup)"

text \<open>
  Step 2, for one group: its name, and its tiles when it has a tiles container.
\<close>

definition koodo_group_name :: "node \<Rightarrow> string" where
  "koodo_group_name g =
     (case find_first (attr_matches ''data-testid'' True (Str ''mfe-rate-plan-group-name'')) g of
        None \<Rightarrow> ''Unknown''
      | Some e \<Rightarrow> get_text_strip [] e)"

definition koodo_group_tiles :: "node \<Rightarrow> node list option" where
  "koodo_group_tiles g =
     (case find_first
             (attr_matches ''data-testid'' True (Str ''mfe-rate-plan-tile-group-tiles-container'')) g of
        None \<Rightarrow> None
      | Some tiles_container \<Rightarrow>
          Some (filter (\<lambda>t. \<not> contains (lower (testid t)) ''group'')
                  (find_all
                     (attr_matches ''data-testid'' True
                        (Seq [Str ''mfe-rate-plan-tile'', Star Dot, Str ''container'']))
                     tiles_container)))"

text \<open>
  The loop over the groups. It extends \<open>all_plan_tiles_with_groups\<close> and assigns the
  local variable \<open>plan_tiles\<close>, which stays unbound (\<open>None\<close>) as long as no group
  has a tiles container.
\<close>

fun koodo_groups_loop ::
  "node list \<Rightarrow> (node \<times> string) list \<Rightarrow> node list option
     \<Rightarrow> (node \<times> string) list \<times> node list option" where
  "koodo_groups_loop [] acc plan_tiles = (acc, plan_tiles)"
| "koodo_groups_loop (g # gs) acc plan_tiles =
     (case koodo_group_tiles g of
        None \<Rightarrow> koodo_groups_loop gs acc plan_tiles
      | Some ts \<Rightarrow>
          koodo_groups_loop gs (acc @ map (\<lambda>t. (t, koodo_group_name g)) ts) (Some ts))"

text \<open>Steps 5 to 9 of the entry point.\<close>

definition koodo_promo_texts :: "string list" where
  "koodo_promo_texts = [''Promotion'', ''Pick 1 FREE Perk'', ''Price includes savings'', ''See details'']"

definition parent_of_promo :: "string list \<Rightarrow> node \<Rightarrow> bool" where
  "parent_of_promo phrases n =
     list_ex (\<lambda>c. case c of Text s \<Rightarrow> list_ex (\<lambda>t. matches True (Str t) s) phrases
                          | Elem t a cs \<Rightarrow> False)
       (children_of n)"

definition koodo_clean :: "node \<Rightarrow> node" where
  "koodo_clean soup =
     (let s = remove_empty_divs
                (remove_where (named [''button'']) (remove_where (named [''sup'']) (del_aria soup)))
      in if parent_of_promo koodo_promo_texts s then Elem (tag_of s) (attrs_of s) []
         else remove_where (parent_of_promo koodo_promo_texts) s)"

text \<open>
  The statistics read \<open>len(plan_tiles)\<close>; in the branch with groups this is the
  variable that the loop over the groups assigned last.
\<close>

definition strip_koodo_html :: "string \<Rightarrow> node \<Rightarrow> error + result" where
  "strip_koodo_html html_content soup =
     (let size0 = length html_content;
          plan_groups = koodo_groups soup
      in if plan_groups = []
         then
           (let plan_tiles = koodo_fallback_tiles soup
            in if plan_tiles = [] then Inr (basic_fallback html_content size0)
               else
                 (let unique_plans_data = deduplicate_koodo_plans plan_tiles;
                      normalized_plans =
                        normalize_all (\<lambda>e. normalize_koodo_plan (e_tile e) None) unique_plans_data;
                      cleaned = koodo_clean soup
                  in Inr \<lparr>html = Built normalized_plans,
                          stats = \<lparr>original_size = size0, original_tokens = size0 div 4,
                                   plan_count = length normalized_plans,
                                   tiles_before_dedup = length plan_tiles,
                                   tiles_after_dedup = length unique_plans_data\<rparr>\<rparr>))
         else
           (case koodo_groups_loop plan_groups [] None of
              (all_plan_tiles_with_groups, plan_tiles) \<Rightarrow>
                (let unique_plans_data =
                       deduplicate_koodo_plans_with_groups all_plan_tiles_with_groups;
                     normalized_plans =
                       normalize_all (\<lambda>e. normalize_koodo_plan (e_tile e) (e_group e))
                         unique_plans_data;
                     cleaned = koodo_clean soup
                 in case plan_tiles of
                      None \<Rightarrow> Inl UnboundLocalError
                    | Some ts \<Rightarrow>
                        Inr \<lparr>html = Built normalized_plans,
                             stats = \<lparr>original_size = size0, original_tokens = size0 div 4,
                                      plan_count = length normalized_plans,
                                      tiles_before_dedup = length ts,
                                      tiles_after_dedup = length unique_plans_data\<rparr>\<rparr>)))"

section \<open>Fido\<close>

text \<open>\<open>\$(\d+(?:\.\d+)?)\s*(?:per\s*mo|/mo)\<close>, used with \<open>re.I\<close>.\<close>

definition rx_fido_price :: rx where
  "rx_fido_price =
     Seq [Str ''$'', Grp 1 (Seq [Plus Digit, Opt (Seq [Str ''.'', Plus Digit])]), Star Space,
          Alt [Seq [Str ''per'', Star Space, Str ''mo''], Str ''/mo'']]"

text \<open>
  Step 1: for each span that carries a plan name, the nearest of its first six enclosing
  \<open>div\<close>, \<open>article\<close> or \<open>section\<close> elements that holds a price element.
\<close>

definition fido_name_span :: "node \<Rightarrow> bool" where
  "fido_name_span n = (named [''span''] n \<and> class_matches True (Str ''text-title-5'') n)"

definition fido_price_elem :: "node \<Rightarrow> node option" where
  "fido_price_elem n = find_first (class_matches True (Str ''ds-price'')) n"

definition fido_container_of :: "node \<times> node list \<Rightarrow> node option" where
  "fido_container_of sa =
     (case sa of (span, anc) \<Rightarrow>
        (let plan_name = get_text_strip [] span
         in if contains plan_name ''BYOP'' \<or> contains plan_name ''Talk & Text''
               \<or> contains plan_name ''GB'' \<or> contains plan_name ''Complete''
            then first_some (\<lambda>parent. if fido_price_elem parent \<noteq> None then Some parent else None)
                   (take 6 (filter (named [''div'', ''article'', ''section'']) anc))
            else None))"

definition fido_containers :: "node \<Rightarrow> node list" where
  "fido_containers soup =
     List.map_filter fido_container_of
       (filter (\<lambda>(d, anc). is_elem d \<and> fido_name_span d) (descendants_ctx [] soup))"

text \<open>
  The name as both the deduplication and the normalisation compute it, before their
  final test; \<open>None\<close> and the empty string stand for "no name".
\<close>

definition fido_plan_name :: "node \<Rightarrow> string" where
  "fido_plan_name container =
     (let n1 = (case find_first fido_name_span container of
                  None \<Rightarrow> []
                | Some plan_name_span \<Rightarrow>
                    strip (replace ''- BYOP Plan'' [] (get_text_strip [] plan_name_span)))
      in if n1 \<noteq> [] then n1
         else (case first_some
                      (\<lambda>h. let txt = get_text_strip [] h
                           in if txt \<noteq> [] \<and> length txt < 50 \<and> \<not> contains txt ''- BYOP Plan''
                              then Some (strip (replace ''- BYOP Plan'' [] txt)) else None)
                      (find_all (named headings) container) of
                 Some n \<Rightarrow> n
               | None \<Rightarrow> []))"

definition fido_entry :: "node \<Rightarrow> (string \<times> entry) option" where
  "fido_entry container =
     (let n = fido_plan_name container;
          plan_name = (if n = [] \<or> length n > 50 then ''Unknown'' else n);
          txt = get_text container;
          data_amount = group0_or_unknown (re_search True rx_gb txt);
          price = (case re_search True rx_fido_price txt of
                     Some m \<Rightarrow> ''$'' @ grp m 1
                   | None \<Rightarrow> group0_or_unknown (re_search False rx_price txt))
      in Some (plan_name @ ''|'' @ price @ ''|'' @ data_amount,
               \<lparr>e_tile = container, e_name = plan_name, e_price = price,
                e_data = data_amount, e_group = None\<rparr>))"

definition deduplicate_fido_plans :: "node list \<Rightarrow> entry list" where
  "deduplicate_fido_plans plan_containers = dedup_loop fido_entry [] plan_containers"

definition fido_price :: "node \<Rightarrow> string" where
  "fido_price container =
     (let price =
            (case fido_price_elem container of
               None \<Rightarrow> ''unknown''
             | Some price_elem \<Rightarrow>
                 (case re_search False rx_dollar_amount (get_text_strip [] price_elem) of
                    Some m \<Rightarrow> ''$'' @ grp m 1
                  | None \<Rightarrow> ''unknown''))
      in if price = ''unknown''
         then (case re_search True rx_fido_price (get_text container) of
                 Some m \<Rightarrow> ''$'' @ grp m 1
               | None \<Rightarrow> ''unknown'')
         else price)"

definition normalize_fido_plan :: "node \<Rightarrow> plan option" where
  "normalize_fido_plan container =
     (let plan_name = fido_plan_name container
      in if plan_name = [] \<or> length plan_name > 50 then None
         else Some \<lparr>name = plan_name, price = fido_price container, regular_price = None,
                    data = group0_or_unknown (re_search True rx_gb (get_text container))\<rparr>)"

text \<open>
  After normalisation the entry point cleans \<open>soup\<close>; the cleaned tree is not read
  again.
\<close>

definition strip_fido_html :: "string \<Rightarrow> node \<Rightarrow> error + result" where
  "strip_fido_html html_content soup =
     (let size0 = length html_content;
          plan_containers = fido_containers soup
      in if plan_containers = [] then Inr (basic_fallback html_content size0)
         else
           (let unique_plans_data = deduplicate_fido_plans plan_containers;
                normalized_plans =
                  normalize_all (\<lambda>e. normalize_fido_plan (e_tile e)) unique_plans_data
            in Inr \<lparr>html = Built normalized_plans,
                    stats = \<lparr>original_size = size0, original_tokens = size0 div 4,
                             plan_count = length normalized_plans,
                             tiles_before_dedup = length plan_containers,
                             tiles_after_dedup = length unique_plans_data\<rparr>\<rparr>))"

section \<open>Virgin\<close>

text \<open>\<open>\d+\s*(GB|MB)\<close> and \<open>(\d+)\s*(GB|MB)\<close>, used with \<open>re.I\<close>.\<close>

definition rx_gb_mb :: rx where
  "rx_gb_mb = Seq [Grp 1 (Plus Digit), Star Space, Grp 2 (Alt [Str ''GB'', Str ''MB''])]"

text \<open>\<open>talk\s*and\s*text\<close> and \<open>pay\s*per\s*use\<close>, used with \<open>re.I\<close>.\<close>

definition rx_talk_and_text :: rx where
  "rx_talk_and_text = Seq [Str ''talk'', Star Space, Str ''and'', Star Space, Str ''text'']"

definition rx_pay_per_use :: rx where
  "rx_pay_per_use = Seq [Str ''pay'', Star Space, Str ''per'', Star Space, Str ''use'']"

text \<open>\<open>\$(\d+(?:\.\d+)?)\s*(?:/|per)\s*mo\<close>, used with \<open>re.I\<close>.\<close>

definition rx_virgin_price :: rx where
  "rx_virgin_price =
     Seq [Str ''$'', Grp 1 (Seq [Plus Digit, Opt (Seq [Str ''.'', Plus Digit])]), Star Space,
          Alt [Str ''/'', Str ''per''], Star Space, Str ''mo'']"

text \<open>\<open>(\d+GB)\s+data[,\s]+talk\s*[&,]\s*text\<close>, used with \<open>re.I\<close>.\<close>

definition rx_gb_data_talk :: rx where
  "rx_gb_data_talk =
     Seq [Grp 1 (Seq [Plus Digit, Str ''GB'']), Plus Space, Str ''data'',
          Plus (AnyOf [Ch CHR '','', Space]), Str ''talk'', Star Space,
          One (AnyOf [Ch CHR ''&'', Ch CHR '','']), Star Space, Str ''text'']"

text \<open>
  The price, the data span, the data amount and the name of a container; the same
  statements stand in the deduplication and in the normalisation.
\<close>

definition virgin_price :: "node \<Rightarrow> string" where
  "virgin_price container =
     (let price =
            (case find_first (attr_matches ''id'' True (Str ''accss-monthlyPrice-'')) container of
               None \<Rightarrow> ''unknown''
             | Some price_elem \<Rightarrow>
                 (case re_search False rx_dollar_amount (get_text_strip [] price_elem) of
                    Some m \<Rightarrow> ''$'' @ grp m 1
                  | None \<Rightarrow> ''unknown''))
      in if price = ''unknown''
         then (case re_search True rx_virgin_price (get_text container) of
                 Some m \<Rightarrow> ''$'' @ grp m 1
               | None \<Rightarrow> group0_or_unknown (re_search False rx_price (get_text container)))
         else price)"

definition virgin_data_span :: "node \<Rightarrow> node option" where
  "virgin_data_span container =
     (case find_first
             (\<lambda>n. named [''span''] n
                   \<and> class_matches True (Alt [Str ''planFeatures'', Str ''RP_DATA'']) n)
             container of
        Some s \<Rightarrow> Some s
      | None \<Rightarrow>
          first_some
            (\<lambda>span. let span_text = get_text_strip [] span
                     in if matches True rx_gb_mb span_text \<or> contains (lower span_text) ''talk''
                        then Some span else None)
            (find_all (named [''span'']) container))"

definition talk_only :: "string \<Rightarrow> bool" where
  "talk_only txt = (matches True rx_talk_and_text txt \<and> \<not> matches True rx_gb_mb txt)"

definition virgin_data_amount :: "node \<Rightarrow> string" where
  "virgin_data_amount container =
     (let data_amount =
            (case virgin_data_span container of
               None \<Rightarrow> ''unknown''
             | Some data_span \<Rightarrow>
                 (let data_text = get_text_strip [] data_span
                  in case re_search True rx_gb_mb data_text of
                       Some m \<Rightarrow> m_all m
                     | None \<Rightarrow> if talk_only data_text then ''pay per use'' else ''unknown''))
      in if data_amount = ''unknown''
         then (let txt = get_text container
               in case re_search True rx_gb_mb txt of
                    Some m \<Rightarrow> m_all m
                  | None \<Rightarrow>
                      if matches True rx_pay_per_use txt then ''pay per use''
                      else if talk_only txt then ''pay per use''
                      else ''unknown'')
         else data_amount)"

definition virgin_skip_texts :: "string list" where
  "virgin_skip_texts =
     [''Warning'', ''Get'', ''Affordable'', ''Find'', ''Data, Talk and Text'',
      ''All plans include'', ''All plans'', ''Plans include'', ''New activations only'',
      ''Internet Members'', ''Members only'']"

definition virgin_plan_name :: "node \<Rightarrow> string option" where
  "virgin_plan_name container =
     (let data_amount = virgin_data_amount container;
          n1 = (case virgin_data_span container of
                  None \<Rightarrow> None
                | Some data_span \<Rightarrow>
                    (let data_text = get_text_strip [] data_span
                     in case re_search True
                               (Grp 1 (Alt [Seq [Plus Digit, Str ''GB''], Seq [Plus Digit, Str ''MB'']]))
                               data_text of
                          Some m \<Rightarrow> Some (grp m 1)
                        | None \<Rightarrow> if talk_only data_text then Some ''Talk and Text'' else None));
          n2 = (if n1 = None \<or> n1 = Some []
                then first_some
                       (\<lambda>h. let txt = get_text_strip [] h
                            in if txt \<noteq> [] \<and> length txt < 50
                                  \<and> \<not> list_ex (\<lambda>skip. contains (lower txt) (lower skip))
                                         virgin_skip_texts
                               then Some txt else None)
                       (find_all (named headings) container)
                else n1);
          n3 = (if (n2 = None \<or> n2 = Some []) \<and> data_amount \<noteq> ''unknown''
                then (if data_amount \<in> set [''pay per use'', ''talk and text only'']
                      then Some ''Talk and Text'' else Some data_amount)
                else n2)
      in if n3 = None \<or> n3 = Some []
         then (let txt = get_text container
               in case re_search True rx_gb_data_talk txt of
                    Some m \<Rightarrow> Some (grp m 1)
                  | None \<Rightarrow>
                      if matches True (Seq [Bol, rx_talk_and_text]) (take 100 txt)
                      then Some ''Talk and Text''
                      else if matches True (Seq [WordB, Str ''basic'', WordB]) (take 100 txt)
                      then Some ''Basic''
                      else n3)
         else n3)"

text \<open>
  A container is skipped by the deduplication, and normalised to \<open>None\<close>, when it has
  no name, the name "Unknown", a name of more than 50 characters, or no price.
\<close>

definition virgin_fields :: "node \<Rightarrow> (string \<times> string \<times> string) option" where
  "virgin_fields container =
     (let price = virgin_price container;
          data_amount = virgin_data_amount container
      in case virgin_plan_name container of
           None \<Rightarrow> None
         | Some plan_name \<Rightarrow>
             if plan_name = [] \<or> plan_name = ''Unknown'' \<or> length plan_name > 50
                \<or> price = ''unknown''
             then None
             else Some (plan_name, price, data_amount))"

text \<open>
  The deduplication keeps a dictionary from keys to the name stored with them. The key
  is price and data; when that key is taken by a plan of another name, the name is put
  in front.
\<close>

fun virgin_loop :: "(string \<times> string) list \<Rightarrow> node list \<Rightarrow> entry list" where
  "virgin_loop seen_keys [] = []"
| "virgin_loop seen_keys (container # rest) =
     (case virgin_fields container of
        None \<Rightarrow> virgin_loop seen_keys rest
      | Some (plan_name, pr, data_amount) \<Rightarrow>
          (let key0 = pr @ ''|'' @ data_amount;
               key = (case map_of seen_keys key0 of
                        Some existing \<Rightarrow>
                          if existing \<noteq> plan_name
                          then plan_name @ ''|'' @ pr @ ''|'' @ data_amount
                          else key0
                      | None \<Rightarrow> key0)
           in if map_of seen_keys key = None
              then \<lparr>e_tile = container, e_name = plan_name, e_price = pr,
                    e_data = data_amount, e_group = None\<rparr>
                   # virgin_loop ((key, plan_name) # seen_keys) rest
              else virgin_loop seen_keys rest))"

definition deduplicate_virgin_plans :: "node list \<Rightarrow> entry list" where
  "deduplicate_virgin_plans plan_containers = virgin_loop [] plan_containers"

definition normalize_virgin_plan :: "node \<Rightarrow> plan option" where
  "normalize_virgin_plan container =
     (case virgin_fields container of
        None \<Rightarrow> None
      | Some (plan_name, pr, data_amount) \<Rightarrow>
          Some \<lparr>name = plan_name, price = pr, regular_price = None, data = data_amount\<rparr>)"

text \<open>
  Step 1: the \<open>plan-container\<close> elements (each stands for its inner \<open>div\<close> of class
  \<open>plan\<close>, if it has one); without any, the \<open>div\<close> elements whose text has a price
  and a data description and a length between 100 and 3000.
\<close>

definition virgin_heuristic_div :: "node \<times> node list \<Rightarrow> bool" where
  "virgin_heuristic_div da =
     (case da of (d, anc) \<Rightarrow>
        is_elem d \<and> named [''div''] d \<and>
        (let txt = get_text_strip [] d;
             has_price = matches False (Seq [Str ''$'', Plus Digit]) txt;
             has_data = (matches True rx_gb_mb txt
                         \<or> matches True (Alt [rx_pay_per_use, rx_talk_and_text]) txt)
         in has_price
            \<and> (has_data \<or> matches True (Alt [rx_talk_and_text, Str ''basic'']) txt)
            \<and> 100 < length txt \<and> length txt < 3000
            \<and> length (case anc of [] \<Rightarrow> [] | p # _ \<Rightarrow> get_text p) < 10000))"

definition virgin_containers :: "node \<Rightarrow> node list" where
  "virgin_containers soup =
     (let primary =
            map (\<lambda>pc. case find_first
                              (\<lambda>n. named [''div''] n
                                    \<and> class_matches False (Seq [WordB, Str ''plan'', WordB]) n)
                              pc of
                         Some plan_div \<Rightarrow> plan_div
                       | None \<Rightarrow> pc)
              (find_all (named [''plan-container'']) soup)
      in if primary = []
         then map fst (filter virgin_heuristic_div (descendants_ctx [] soup))
         else primary)"

text \<open>
  After normalisation the entry point cleans \<open>soup\<close>; the cleaned tree is not read
  again.
\<close>

definition strip_virgin_html :: "string \<Rightarrow> node \<Rightarrow> error + result" where
  "strip_virgin_html html_content soup =
     (let size0 = length html_content;
          plan_containers = virgin_containers soup
      in if plan_containers = [] then Inr (basic_fallback html_content size0)
         else
           (let unique_plans_data = deduplicate_virgin_plans plan_containers;
                normalized_plans =
                  normalize_all (\<lambda>e. normalize_virgin_plan (e_tile e)) unique_plans_data
            in Inr \<lparr>html = Built normalized_plans,
                    stats = \<lparr>original_size = size0, original_tokens = size0 div 4,
                             plan_count = length normalized_plans,
                             tiles_before_dedup = length plan_containers,
                             tiles_after_dedup = length unique_plans_data\<rparr>\<rparr>))"

section \<open>First occurrences\<close>

text \<open>
  What deduplication is meant to compute, stated on positions of the candidate list: the
  identity key of the candidate at a position (if it has one), and the positions whose
  key does not occur at an earlier position.
\<close>

definition key_at :: "('t \<Rightarrow> (string \<times> 'e) option) \<Rightarrow> 't list \<Rightarrow> nat \<Rightarrow> string option" where
  "key_at f ts i = map_option fst (f (ts ! i))"

definition entry_at :: "('t \<Rightarrow> (string \<times> 'e) option) \<Rightarrow> 't list \<Rightarrow> nat \<Rightarrow> 'e option" where
  "entry_at f ts i = map_option snd (f (ts ! i))"

definition first_occurrence ::
  "('t \<Rightarrow> (string \<times> 'e) option) \<Rightarrow> string list \<Rightarrow> 't list \<Rightarrow> nat \<Rightarrow> bool" where
  "first_occurrence f seen ts i =
     (case key_at f ts i of
        None \<Rightarrow> False
      | Some k \<Rightarrow> k \<notin> set seen \<and> (\<forall>j<i. key_at f ts j \<noteq> Some k))"

definition keys_in :: "('t \<Rightarrow> (string \<times> 'e) option) \<Rightarrow> 't list \<Rightarrow> string set" where
  "keys_in f ts = {k. \<exists>t \<in> set ts. \<exists>e. f t = Some (k, e)}"

section \<open>Example pages\<close>

text \<open>A Rogers page with four copies of one tile and a fifth tile that differs.\<close>

definition rogers_tile_70 :: node where
  "rogers_tile_70 =
     Elem ''div'' [(''class'', ''dsa-vertical-tile'')]
       [Elem ''p'' [] [Text ''Essentials''],
        Elem ''ds-price'' [] [Text ''$70''],
        Elem ''ul'' [] [Elem ''li'' [] [Text ''60 GB'']]]"

definition rogers_tile_75 :: node where
  "rogers_tile_75 =
     Elem ''div'' [(''class'', ''dsa-vertical-tile'')]
       [Elem ''p'' [] [Text ''Essentials''],
        Elem ''ds-price'' [] [Text ''$75''],
        Elem ''ul'' [] [Elem ''li'' [] [Text ''100 GB'']]]"

definition rogers_page :: node where
  "rogers_page =
     Elem ''[document]'' []
       [rogers_tile_70, rogers_tile_70, rogers_tile_70, rogers_tile_70, rogers_tile_75]"

text \<open>The empty page: the tree that the parser builds from the empty string.\<close>

definition empty_soup :: node where
  "empty_soup = Elem ''[document]'' [] []"

text \<open>
  A Koodo page with two groups, "Canada Wide Plans" and "Starter Plans", each with one
  tile of 10 GB at $50.
\<close>

definition koodo_tile :: "string \<Rightarrow> string \<Rightarrow> string \<Rightarrow> node" where
  "koodo_tile i amount pr =
     Elem ''div'' [(''data-testid'', ''mfe-rate-plan-tile-'' @ i @ ''-container'')]
       [Elem ''span'' [(''data-testid'', ''data-bucket-amount'')] [Text amount],
        Elem ''div'' [(''data-testid'', ''plan-price-lockup'')] [Text pr]]"

definition koodo_group :: "string \<Rightarrow> string \<Rightarrow> node list \<Rightarrow> node" where
  "koodo_group i gname tiles =
     Elem ''div'' [(''data-testid'', ''mfe-rate-plan-tile-group-'' @ i)]
       [Elem ''h2'' [(''data-testid'', ''mfe-rate-plan-group-name'')] [Text gname],
        Elem ''div'' [(''data-testid'', ''mfe-rate-plan-tile-group-tiles-container'')] tiles]"

definition koodo_page :: node where
  "koodo_page =
     Elem ''[document]'' []
       [koodo_group ''0'' ''Canada Wide Plans'' [koodo_tile ''0'' ''10'' ''$50''],
        koodo_group ''1'' ''Starter Plans'' [koodo_tile ''0'' ''10'' ''$50'']]"

text \<open>A Koodo page with a group that has no tiles container.\<close>

definition koodo_page_bare_group :: node where
  "koodo_page_bare_group =
     Elem ''[document]'' []
       [Elem ''div'' [(''data-testid'', ''mfe-rate-plan-tile-group-0'')] [Text ''Plans'']]"

section \<open>Properties of the deduplication loop\<close>

lemma key_at_Cons [simp]:
  "key_at f (t # ts) 0 = map_option fst (f t)"
  "key_at f (t # ts) (Suc i) = key_at f ts i"
  by (simp_all add: key_at_def)

lemma first_occurrence_Cons_Suc:
  "first_occurrence f seen (t # ts) (Suc i) =
     (case f t of None \<Rightarrow> first_occurrence f seen ts i
      | Some (k, e) \<Rightarrow> first_occurrence f (k # seen) ts i)"
proof (cases "f t")
  case None
  then show ?thesis
    by (simp add: first_occurrence_def All_less_Suc2 split: option.split)
next
  case (Some ke)
  obtain k e where ke: "ke = (k, e)" by (cases ke)
  show ?thesis
    using Some ke by (auto simp add: first_occurrence_def All_less_Suc2 split: option.split)
qed

lemma first_occurrence_0:
  "first_occurrence f seen (t # ts) 0 = (case f t of None \<Rightarrow> False | Some (k, e) \<Rightarrow> k \<notin> set seen)"
  by (auto simp: first_occurrence_def split: option.splits)

lemma first_occurrence_seen:
  "k \<in> set seen \<Longrightarrow> first_occurrence f (k # seen) ts i = first_occurrence f seen ts i"
  by (auto simp: first_occurrence_def split: option.splits)

lemma upt_length_Cons: "[0 ..< length (t # ts)] = 0 # map Suc [0 ..< length ts]"
  by (simp add: upt_conv_Cons map_Suc_upt del: upt_Suc)

lemma dedup_loop_first:
  "map Some (dedup_loop f seen ts) =
     map (entry_at f ts) (filter (first_occurrence f seen ts) [0 ..< length ts])"
proof (induction ts arbitrary: seen)
  case Nil
  show ?case by simp
next
  case (Cons t ts)
  have shift: "\<And>s. map (entry_at f (t # ts)) (map Suc (filter (first_occurrence f s ts) [0 ..< length ts]))
      = map (entry_at f ts) (filter (first_occurrence f s ts) [0 ..< length ts])"
    by (simp add: entry_at_def)
  show ?case
  proof (cases "f t")
    case None
    have F: "filter (first_occurrence f seen (t # ts)) [0 ..< length (t # ts)]
        = map Suc (filter (first_occurrence f seen ts) [0 ..< length ts])"
      unfolding upt_length_Cons using None
      by (simp add: first_occurrence_0 first_occurrence_Cons_Suc filter_map comp_def)
    have "map Some (dedup_loop f seen (t # ts)) = map Some (dedup_loop f seen ts)"
      using None by simp
    also have "\<dots> = map (entry_at f ts) (filter (first_occurrence f seen ts) [0 ..< length ts])"
      by (rule Cons.IH)
    also have "\<dots> = map (entry_at f (t # ts))
                        (map Suc (filter (first_occurrence f seen ts) [0 ..< length ts]))"
      by (rule shift [symmetric])
    finally show ?thesis by (simp only: F)
  next
    case (Some ke)
    obtain k e where ke: "ke = (k, e)" by (cases ke)
    show ?thesis
    proof (cases "k \<in> set seen")
      case True
      have F: "filter (first_occurrence f seen (t # ts)) [0 ..< length (t # ts)]
          = map Suc (filter (first_occurrence f seen ts) [0 ..< length ts])"
        unfolding upt_length_Cons using Some ke True
        by (simp add: first_occurrence_0 first_occurrence_Cons_Suc first_occurrence_seen filter_map comp_def)
      have "map Some (dedup_loop f seen (t # ts)) = map Some (dedup_loop f seen ts)"
        using Some ke True by simp
      also have "\<dots> = map (entry_at f ts) (filter (first_occurrence f seen ts) [0 ..< length ts])"
        by (rule Cons.IH)
      also have "\<dots> = map (entry_at f (t # ts))
                          (map Suc (filter (first_occurrence f seen ts) [0 ..< length ts]))"
        by (rule shift [symmetric])
      finally show ?thesis by (simp only: F)
    next
      case False
      have F: "filter (first_occurrence f seen (t # ts)) [0 ..< length (t # ts)]
          = 0 # map Suc (filter (first_occurrence f (k # seen) ts) [0 ..< length ts])"
        unfolding upt_length_Cons using Some ke False
        by (simp add: first_occurrence_0 first_occurrence_Cons_Suc filter_map comp_def)
      have "map Some (dedup_loop f seen (t # ts)) = Some e # map Some (dedup_loop f (k # seen) ts)"
        using Some ke False by simp
      also have "\<dots> = Some e # map (entry_at f ts)
                                    (filter (first_occurrence f (k # seen) ts) [0 ..< length ts])"
        by (simp only: Cons.IH)
      also have "\<dots> = entry_at f (t # ts) 0 # map (entry_at f (t # ts))
                          (map Suc (filter (first_occurrence f (k # seen) ts) [0 ..< length ts]))"
        using Some ke by (simp only: shift) (simp add: entry_at_def)
      finally show ?thesis by (simp only: F list.map)
    qed
  qed
qed

lemma dedup_loop_keys:
  assumes "\<And>t k e. f t = Some (k, e) \<Longrightarrow> kf e = k"
  shows "distinct (map kf (dedup_loop f seen ts)) \<and> set (map kf (dedup_loop f seen ts)) \<inter> set seen = {}"
proof (induction ts arbitrary: seen)
  case Nil
  show ?case by simp
next
  case (Cons t ts)
  show ?case
  proof (cases "f t")
    case None
    then show ?thesis using Cons.IH [of seen] by simp
  next
    case (Some ke)
    obtain k e where ke: "ke = (k, e)" by (cases ke)
    have kf: "kf e = k" using assms Some ke by simp
    show ?thesis
    proof (cases "k \<in> set seen")
      case True
      then show ?thesis using Cons.IH [of seen] Some ke by simp
    next
      case False
      have ih: "distinct (map kf (dedup_loop f (k # seen) ts)) \<and>
                set (map kf (dedup_loop f (k # seen) ts)) \<inter> set (k # seen) = {}"
        by (rule Cons.IH)
      then show ?thesis using Some ke False kf by auto
    qed
  qed
qed

lemma keys_in_Cons:
  "keys_in f (t # ts) = (case f t of None \<Rightarrow> {} | Some (k, e) \<Rightarrow> {k}) \<union> keys_in f ts"
  by (auto simp: keys_in_def split: option.splits)

lemma finite_keys_in: "finite (keys_in f ts)"
proof (induction ts)
  case Nil
  show ?case by (simp add: keys_in_def)
next
  case (Cons t ts)
  then show ?case by (cases "f t") (auto simp: keys_in_Cons)
qed

lemma dedup_loop_length:
  "length (dedup_loop f seen ts) = card (keys_in f ts - set seen)"
proof (induction ts arbitrary: seen)
  case Nil
  show ?case by (simp add: keys_in_def)
next
  case (Cons t ts)
  show ?case
  proof (cases "f t")
    case None
    then show ?thesis using Cons.IH [of seen] by (simp add: keys_in_Cons)
  next
    case (Some ke)
    obtain k e where ke: "ke = (k, e)" by (cases ke)
    show ?thesis
    proof (cases "k \<in> set seen")
      case True
      then have "keys_in f (t # ts) - set seen = keys_in f ts - set seen"
        using Some ke by (auto simp: keys_in_Cons)
      then show ?thesis using Cons.IH [of seen] Some ke True by simp
    next
      case False
      have eq: "keys_in f (t # ts) - set seen = insert k (keys_in f ts - set (k # seen))"
        using Some ke False by (auto simp: keys_in_Cons)
      have "k \<notin> keys_in f ts - set (k # seen)" by simp
      moreover have "finite (keys_in f ts - set (k # seen))"
        using finite_keys_in by blast
      ultimately have "card (keys_in f (t # ts) - set seen) = Suc (card (keys_in f ts - set (k # seen)))"
        unfolding eq by (rule card_insert_disjoint [rotated])
      then show ?thesis using Cons.IH [of "k # seen"] Some ke False by simp
    qed
  qed
qed

lemma dedup_loop_sound:
  "e \<in> set (dedup_loop f seen ts) \<Longrightarrow> \<exists>t \<in> set ts. \<exists>k. f t = Some (k, e) \<and> k \<notin> set seen"
proof (induction ts arbitrary: seen)
  case Nil
  then show ?case by simp
next
  case (Cons t ts)
  show ?case
  proof (cases "f t")
    case None
    then show ?thesis using Cons.IH [of seen] Cons.prems by auto
  next
    case (Some ke)
    obtain k e' where ke: "ke = (k, e')" by (cases ke)
    show ?thesis
    proof (cases "k \<in> set seen")
      case True
      then show ?thesis using Cons.IH [of seen] Cons.prems Some ke by auto
    next
      case False
      then have "e = e' \<or> e \<in> set (dedup_loop f (k # seen) ts)"
        using Cons.prems Some ke by auto
      then show ?thesis
      proof
        assume "e = e'"
        then show ?thesis using Some ke False by auto
      next
        assume "e \<in> set (dedup_loop f (k # seen) ts)"
        from Cons.IH [OF this] show ?thesis by auto
      qed
    qed
  qed
qed

lemma dedup_loop_complete:
  "k \<in> keys_in f ts \<Longrightarrow> k \<notin> set seen \<Longrightarrow>
     \<exists>e \<in> set (dedup_loop f seen ts). \<exists>t \<in> set ts. f t = Some (k, e)"
proof (induction ts arbitrary: seen)
  case Nil
  then show ?case by (simp add: keys_in_def)
next
  case (Cons t ts)
  show ?case
  proof (cases "f t")
    case None
    then have "k \<in> keys_in f ts" using Cons.prems(1) by (simp add: keys_in_Cons)
    from Cons.IH [OF this Cons.prems(2)] show ?thesis using None by auto
  next
    case (Some ke)
    obtain k' e' where ke: "ke = (k', e')" by (cases ke)
    show ?thesis
    proof (cases "k' = k")
      case True
      then show ?thesis using Some ke Cons.prems(2) by auto
    next
      case False
      then have k: "k \<in> keys_in f ts" using Cons.prems(1) Some ke by (simp add: keys_in_Cons)
      show ?thesis
      proof (cases "k' \<in> set seen")
        case True
        from Cons.IH [OF k Cons.prems(2)] show ?thesis using Some ke True by auto
      next
        case notin: False
        have "k \<notin> set (k' # seen)" using False Cons.prems(2) by simp
        from Cons.IH [OF k this] show ?thesis using Some ke notin by auto
      qed
    qed
  qed
qed

lemma dedup_loop_length_le: "length (dedup_loop f seen ts) \<le> length ts"
proof (induction ts arbitrary: seen)
  case Nil
  show ?case by simp
next
  case (Cons t ts)
  show ?case
    using Cons.IH [of seen] Cons.IH [of "fst (the (f t)) # seen"]
    by (auto split: option.split simp: le_SucI)
qed

lemma normalize_all_length_le: "length (normalize_all f es) \<le> length es"
  by (simp add: normalize_all_def map_filter_def)

lemma normalize_all_length:
  "(\<And>e. e \<in> set es \<Longrightarrow> f e \<noteq> None) \<Longrightarrow> length (normalize_all f es) = length es"
  by (simp add: normalize_all_def map_filter_def filter_id_conv)

section \<open>Rogers: the scenario of duplicated tiles\<close>

text \<open>
  C8. On a Rogers page whose tiles are copies of a tile read as ("Essentials", "$70",
  "60 GB") and of a tile read as ("Essentials", "$75", "100 GB"), in any number and order,
  extraction returns exactly two records.
\<close>

theorem rogers_scenario_A:
  assumes tiles: "set (find_all rogers_tile soup) = {t1, t2}"
    and n1: "rogers_plan_name t1 = Some ''Essentials''"
    and p1: "extract_price t1 = ''$70''"
    and d1: "extract_data_amount t1 = ''60 GB''"
    and n2: "rogers_plan_name t2 = Some ''Essentials''"
    and p2: "extract_price t2 = ''$75''"
    and d2: "extract_data_amount t2 = ''100 GB''"
  shows "\<exists>r ps. strip_rogers_html html_content soup = Inr r \<and> html r = Built ps
           \<and> length ps = 2 \<and> plan_count (stats r) = 2 \<and> tiles_after_dedup (stats r) = 2"
proof -
  let ?ts = "find_all rogers_tile soup"
  have ne: "?ts \<noteq> []" using tiles by auto
  have k1: "\<exists>e. rogers_entry t1 = Some (''Essentials|$70|60 GB'', e)"
    by (simp add: rogers_entry_def n1 p1 d1 Let_def)
  have k2: "\<exists>e. rogers_entry t2 = Some (''Essentials|$75|100 GB'', e)"
    by (simp add: rogers_entry_def n2 p2 d2 Let_def)
  have "keys_in rogers_entry ?ts = {''Essentials|$70|60 GB'', ''Essentials|$75|100 GB''}"
    unfolding keys_in_def tiles using k1 k2 by auto
  then have "card (keys_in rogers_entry ?ts - set []) = 2" by simp
  then have len: "length (deduplicate_plans ?ts) = 2"
    by (simp add: deduplicate_plans_def dedup_loop_length)
  have "length (normalize_all (\<lambda>e. normalize_plan (e_tile e)) (deduplicate_plans ?ts))
          = length (deduplicate_plans ?ts)"
    by (rule normalize_all_length) (simp add: normalize_plan_def Let_def)
  with len ne show ?thesis
    by (simp add: strip_rogers_html_def Let_def)
qed

theorem rogers_scenario_A_witness:
  "\<exists>r ps. strip_rogers_html ''<html/>'' rogers_page = Inr r \<and> html r = Built ps
           \<and> length ps = 2 \<and> plan_count (stats r) = 2 \<and> tiles_after_dedup (stats r) = 2"
proof -
  have tiles: "set (find_all rogers_tile rogers_page) = {rogers_tile_70, rogers_tile_75}"
    by code_simp
  have n1: "rogers_plan_name rogers_tile_70 = Some ''Essentials''" by code_simp
  have p1: "extract_price rogers_tile_70 = ''$70''" by code_simp
  have d1: "extract_data_amount rogers_tile_70 = ''60 GB''" by code_simp
  have n2: "rogers_plan_name rogers_tile_75 = Some ''Essentials''" by code_simp
  have p2: "extract_price rogers_tile_75 = ''$75''" by code_simp
  have d2: "extract_data_amount rogers_tile_75 = ''100 GB''" by code_simp
  show ?thesis
    by (rule rogers_scenario_A [OF tiles n1 p1 d1 n2 p2 d2])
qed

section \<open>Statistics\<close>

lemma virgin_loop_length_le: "length (virgin_loop seen cs) \<le> length cs"
proof (induction cs arbitrary: seen)
  case Nil
  show ?case by simp
next
  case (Cons c cs)
  have IH: "\<And>s. length (virgin_loop s cs) \<le> Suc (length cs)"
    using Cons.IH le_SucI by blast
  show ?case
    using Cons.IH IH by (auto simp: Let_def split: option.splits simp del: map_of.simps)
qed

text \<open>
  On every path but the Koodo branch with groups, the statistics are ordered: no more
  unique tiles than tiles, and no more plans than unique tiles.
\<close>

definition stats_ordered :: "result \<Rightarrow> bool" where
  "stats_ordered r =
     (tiles_after_dedup (stats r) \<le> tiles_before_dedup (stats r)
      \<and> plan_count (stats r) \<le> tiles_after_dedup (stats r))"

lemma stats_ordered_fallback: "stats_ordered (basic_fallback h n)"
  by (simp add: stats_ordered_def basic_fallback_def)

lemma stats_ordered_rogers: "strip_rogers_html h soup = Inr r \<Longrightarrow> stats_ordered r"
  using dedup_loop_length_le [of rogers_entry "[]" "find_all rogers_tile soup"]
    normalize_all_length_le [of "\<lambda>e. normalize_plan (e_tile e)"
      "deduplicate_plans (find_all rogers_tile soup)"]
  by (auto simp: strip_rogers_html_def Let_def basic_fallback_def stats_ordered_def
        deduplicate_plans_def split: if_splits)

lemma stats_ordered_bell: "strip_bell_html h soup = Inr r \<Longrightarrow> stats_ordered r"
  using dedup_loop_length_le [of bell_entry "[]"]
    normalize_all_length_le [of "\<lambda>e. normalize_bell_plan (e_tile e)"]
  by (auto simp: strip_bell_html_def Let_def basic_fallback_def stats_ordered_def
        deduplicate_bell_plans_def split: if_splits)

lemma stats_ordered_freedom: "strip_freedom_html h soup = Inr r \<Longrightarrow> stats_ordered r"
  using dedup_loop_length_le [of freedom_entry "[]"]
    normalize_all_length_le [of "\<lambda>e. normalize_freedom_plan (e_tile e)"]
  by (auto simp: strip_freedom_html_def Let_def basic_fallback_def stats_ordered_def
        deduplicate_freedom_plans_def split: if_splits)

lemma stats_ordered_fido: "strip_fido_html h soup = Inr r \<Longrightarrow> stats_ordered r"
  using dedup_loop_length_le [of fido_entry "[]"]
    normalize_all_length_le [of "\<lambda>e. normalize_fido_plan (e_tile e)"]
  by (auto simp: strip_fido_html_def Let_def basic_fallback_def stats_ordered_def
        deduplicate_fido_plans_def split: if_splits)

lemma stats_ordered_virgin: "strip_virgin_html h soup = Inr r \<Longrightarrow> stats_ordered r"
  using virgin_loop_length_le [of "[]"]
    normalize_all_length_le [of "\<lambda>e. normalize_virgin_plan (e_tile e)"]
  by (auto simp: strip_virgin_html_def Let_def basic_fallback_def stats_ordered_def
        deduplicate_virgin_plans_def split: if_splits)

lemma stats_ordered_telus: "strip_telus_html h soup = Inr r \<Longrightarrow> stats_ordered r"
  using dedup_loop_length_le [of telus_entry "[]"]
    normalize_all_length_le [of "\<lambda>e. normalize_telus_plan (e_tile e)"]
  by (auto simp: strip_telus_html_def Let_def stats_ordered_def
        deduplicate_telus_plans_def normalize_all_def split: if_splits)

lemma stats_ordered_koodo_without_groups:
  "koodo_groups soup = [] \<Longrightarrow> strip_koodo_html h soup = Inr r \<Longrightarrow> stats_ordered r"
  using dedup_loop_length_le [of koodo_entry "[]"]
    normalize_all_length_le [of "\<lambda>e. normalize_koodo_plan (e_tile e) None"]
  by (auto simp: strip_koodo_html_def Let_def basic_fallback_def stats_ordered_def
        deduplicate_koodo_plans_def split: if_splits)

text \<open>
  C10. On the Koodo page with two groups of one tile each, the call returns statistics
  with one tile before deduplication and two after it: in the branch with groups
  \<open>tiles_before_dedup\<close> counts the tiles of the last group only.
\<close>

theorem koodo_stats_not_ordered:
  "\<exists>r. strip_koodo_html ''<html/>'' koodo_page = Inr r
       \<and> tiles_before_dedup (stats r) = 1 \<and> tiles_after_dedup (stats r) = 2
       \<and> plan_count (stats r) = 2"
proof -
  have "case strip_koodo_html ''<html/>'' koodo_page of
          Inl e \<Rightarrow> False
        | Inr r \<Rightarrow> tiles_before_dedup (stats r) = 1 \<and> tiles_after_dedup (stats r) = 2
                   \<and> plan_count (stats r) = 2"
    by code_simp
  then show ?thesis by (cases "strip_koodo_html ''<html/>'' koodo_page") auto
qed

section \<open>Empty and malformed input\<close>

text \<open>
  C2. For the empty page the Telus entry point reaches the return of the cleaned document
  and divides by the original size, which is zero.
\<close>

theorem telus_empty_input_raises:
  "strip_telus_html [] empty_soup = Inl ZeroDivisionError"
  by code_simp

lemma empty_input_other_carriers:
  "strip_rogers_html [] empty_soup = Inr (basic_fallback [] 0)"
  "strip_bell_html [] empty_soup = Inr (basic_fallback [] 0)"
  "strip_freedom_html [] empty_soup = Inr (basic_fallback [] 0)"
  "strip_koodo_html [] empty_soup = Inr (basic_fallback [] 0)"
  "strip_fido_html [] empty_soup = Inr (basic_fallback [] 0)"
  "strip_virgin_html [] empty_soup = Inr (basic_fallback [] 0)"
  by code_simp+

lemma koodo_bare_group_raises:
  "strip_koodo_html ''<div data-testid=\"mfe-rate-plan-tile-group-0\">Plans</div>''
     koodo_page_bare_group = Inl UnboundLocalError"
  by code_simp

end
